theory Spec2Isabelle
  imports Complex_Main
begin

section \<open>Data model\<close>

text \<open>
  The three sheets of the data file are pandas frames; here each is a list of rows in
  the order of the sheet. Python floats are idealised as real numbers: every sum,
  product and quotient below is the exact one. A quotient by zero, which numpy
  evaluates to \<open>inf\<close> or \<open>nan\<close> without raising, is outside what the model
  represents: there the model has the value 0 of a quotient in HOL. Where a statement
  multiplies a quotient out, it assumes the divisor not to be zero.
\<close>

record design_row =
  dTechnology :: string
  dVariable :: string
  dIndex :: string
  dValue :: real

record finan_row =
  fCategory :: string
  fVariable :: string
  fIndex :: string
  fValue :: real

record struct_row =
  sTechnology :: string
  sDownstream :: string

text \<open>
  The ways an evaluation stops. \<open>TechnologyNotFound\<close> and \<open>ProductNotFound\<close> are the
  two \<open>sys.exit\<close> calls of \<open>Technology.__init__\<close>; \<open>IndexError\<close>, \<open>KeyError\<close>,
  \<open>NameError\<close> and \<open>ValueError\<close> are the exceptions Python raises on \<open>values[0]\<close> of
  an empty selection, on a missing dictionary key, on reading a local variable that was
  never assigned, and on building a column from rows of unequal length.
  \<open>Unmodelled\<close> is not an exception of the source: it marks a financial table that has
  not exactly one row for a scalar parameter, where the source goes on with numpy
  broadcasting over an array of another length, which this model does not follow.
\<close>

datatype error =
    TechnologyNotFound string
  | ProductNotFound string string
  | IndexError
  | KeyError string
  | NameError string
  | ValueError
  | Unmodelled

text \<open>
  A cost or revenue line is a label and a value; the value \<open>None\<close> is the \<open>NaN\<close> that a
  left merge leaves where the right frame has no row for the key. The attribute
  \<open>output\<close> of the class is the field \<open>output_qty\<close> here.
\<close>

type_synonym line = "string \<times> real option"

record technology =
  name :: string
  product :: string
  output_qty :: real
  op_hrs_yr :: real
  onetime_costs :: "line list"
  annual_costs :: "line list"
  output_amounts :: "(string \<times> real \<times> real) list"
  normalized_costs :: "line list"
  annual_revenue :: "line list"
  normalized_revenue :: "line list"
  net_normalized_costs :: real
  production_cost :: real

section \<open>Frame operations\<close>

text \<open>\<open>frame[['Index','Value']]\<close> of a design and of a financial selection.\<close>

definition design_IV :: "design_row list \<Rightarrow> (string \<times> real) list" where
  "design_IV rows = map (\<lambda>r. (dIndex r, dValue r)) rows"

definition finan_IV :: "finan_row list \<Rightarrow> (string \<times> real) list" where
  "finan_IV rows = map (\<lambda>r. (fIndex r, fValue r)) rows"

text \<open>
  \<open>left.merge(right, on='Index')\<close>: the inner join, one row for every pair of a left and a
  right row with the same key, in the order of the left rows.
\<close>

definition merge_inner :: "(string \<times> 'a) list \<Rightarrow> (string \<times> 'b) list \<Rightarrow> (string \<times> 'a \<times> 'b) list" where
  "merge_inner left right =
     concat (map (\<lambda>(i, x). map (\<lambda>(j, y). (i, x, y)) (filter (\<lambda>(j, y). j = i) right)) left)"

text \<open>
  \<open>left.merge(right, on='Index', how='left')\<close>: as the inner join, and a left row without a
  partner is kept with \<open>NaN\<close> in the right column.
\<close>

definition merge_left :: "(string \<times> 'a) list \<Rightarrow> (string \<times> 'b) list \<Rightarrow> (string \<times> 'a \<times> 'b option) list" where
  "merge_left left right =
     concat (map (\<lambda>(i, x).
       (case filter (\<lambda>(j, y). j = i) right of
          [] \<Rightarrow> [(i, x, None)]
        | ms \<Rightarrow> map (\<lambda>(j, y). (i, x, Some y)) ms)) left)"

text \<open>Python's builtin \<open>sum\<close> over a column: one \<open>NaN\<close> makes the sum \<open>NaN\<close>.\<close>

fun py_sum :: "real option list \<Rightarrow> real option" where
  "py_sum [] = Some 0"
| "py_sum (None # vs) = None"
| "py_sum (Some v # vs) = (case py_sum vs of None \<Rightarrow> None | Some s \<Rightarrow> Some (v + s))"

text \<open>pandas' \<open>Series.sum()\<close>: \<open>NaN\<close> entries are skipped, the empty sum is 0.\<close>

fun pd_sum :: "real option list \<Rightarrow> real" where
  "pd_sum [] = 0"
| "pd_sum (None # vs) = pd_sum vs"
| "pd_sum (Some v # vs) = v + pd_sum vs"

text \<open>\<open>selection.values[0]\<close>.\<close>

definition first_value :: "'a list \<Rightarrow> error + 'a" where
  "first_value vs = (case vs of [] \<Rightarrow> Inl IndexError | v # _ \<Rightarrow> Inr v)"

text \<open>
  \<open>selection.values\<close> used as a number in the arithmetic that follows: an array of one
  element behaves as that element.
\<close>

definition scalar :: "real list \<Rightarrow> error + real" where
  "scalar vs = (case vs of [v] \<Rightarrow> Inr v | _ \<Rightarrow> Inl Unmodelled)"

section \<open>Technology\<close>

text \<open>
  The methods of the class read \<open>self.name\<close>, \<open>self.design\<close>, \<open>self.finan\<close>,
  \<open>self.op_hrs_yr\<close>, \<open>self.product\<close> and \<open>self.output_amounts\<close>; here each takes the
  attributes it reads as arguments, in that order.
\<close>

definition capital :: "design_row list \<Rightarrow> finan_row list \<Rightarrow> error + (line list \<times> line list)" where
  "capital design finan =
     (let cap_cost = merge_left
            (design_IV (filter (\<lambda>r. dVariable r = ''Capital scale'') design))
            (finan_IV (filter (\<lambda>r. fVariable r = ''Capital'') finan));
          purch = map (\<lambda>(i, x, y). (i, map_option (\<lambda>y. x * y) y)) cap_cost
      in case scalar (map fValue (filter (\<lambda>r. fIndex r = ''Installation'') finan)) of
           Inl e \<Rightarrow> Inl e
         | Inr installation \<Rightarrow>
      (let installed = map (\<lambda>(i, p). (i, map_option (\<lambda>p. (1 + installation) * p) p)) purch;
           cap_ann = merge_inner installed
             (design_IV (filter (\<lambda>r. dVariable r = ''Capital depreciation'') design));
           cost_ann = map (\<lambda>(i, inst, dep). map_option (\<lambda>v. v / dep) inst) cap_ann
       in case scalar (map fValue (filter (\<lambda>r. fIndex r = ''Maintenance'') finan)) of
            Inl e \<Rightarrow> Inl e
          | Inr maintenance \<Rightarrow>
       (let maint_ann = map (\<lambda>(i, p). map_option (\<lambda>p. maintenance * p) p) purch
        in Inr ([(''Capital Purchased'', py_sum (map snd purch)),
                 (''Capital Installed'', py_sum (map snd installed))],
                [(''Capital, Annualized'', py_sum cost_ann),
                 (''Maintenance'', py_sum maint_ann)]))))"

text \<open>
  The merged input lines and their hourly cost, as \<open>raw_material\<close> and the landfilling
  branch of \<open>wastes\<close> both build them.
\<close>

definition mats_cost :: "design_row list \<Rightarrow> finan_row list \<Rightarrow> (string \<times> real) list" where
  "mats_cost design finan =
     map (\<lambda>(i, x, y). (i, x * y))
       (merge_inner
          (design_IV (filter (\<lambda>r. dVariable r = ''Input'' \<and> dIndex r \<noteq> ''Contingency'') design))
          (finan_IV (filter (\<lambda>r. fVariable r = ''Input'') finan)))"

definition raw_material :: "string \<Rightarrow> design_row list \<Rightarrow> finan_row list \<Rightarrow> real \<Rightarrow> line list" where
  "raw_material name' design finan hrs =
     (let mats = mats_cost design finan
      in if name' \<noteq> ''Landfilling''
         then [(''Raw Material'',
                  Some (sum_list (map snd (filter (\<lambda>(i, c). i \<noteq> ''Barrier film'') mats)) * hrs)),
               (''Barrier Film'',
                  Some (sum_list (map snd (filter (\<lambda>(i, c). i = ''Barrier film'') mats)) * hrs))]
         else [(''Raw Material'', Some 0), (''Barrier Film'', Some 0)])"

definition labor :: "design_row list \<Rightarrow> finan_row list \<Rightarrow> error + line list" where
  "labor design finan =
     (let labor_cost = map (\<lambda>(i, x, y). x * y)
            (merge_inner
               (design_IV (filter (\<lambda>r. dVariable r = ''Labor'') design))
               (finan_IV (filter (\<lambda>r. fVariable r = ''Labor'') finan)))
      in case scalar (map fValue (filter (\<lambda>r. fVariable r = ''Working Hours'') finan)) of
           Inl e \<Rightarrow> Inl e
         | Inr work_hrs \<Rightarrow>
       (case scalar (map fValue
               (filter (\<lambda>r. fCategory r = ''Cost Multiplier'' \<and> fVariable r = ''Labor'') finan)) of
           Inl e \<Rightarrow> Inl e
         | Inr burden \<Rightarrow>
             Inr [(''Labor'', Some (sum_list labor_cost * work_hrs * (1 + burden)))]))"

definition utilities :: "design_row list \<Rightarrow> finan_row list \<Rightarrow> real \<Rightarrow> line list" where
  "utilities design finan hrs =
     (let util_cost = map (\<lambda>(i, x, y). x * y)
            (merge_inner
               (design_IV (filter (\<lambda>r. dVariable r = ''Utilities'') design))
               (finan_IV (filter (\<lambda>r. fVariable r = ''Utilities'') finan)))
      in [(''Utilities'', Some (sum_list util_cost * hrs))])"

definition wastes :: "string \<Rightarrow> design_row list \<Rightarrow> finan_row list \<Rightarrow> real \<Rightarrow> error + line list" where
  "wastes name' design finan hrs =
     (let waste = merge_inner
            (design_IV (filter (\<lambda>r. dVariable r = ''Output'') design))
            (design_IV (filter (\<lambda>r. dVariable r = ''Output efficiency'') design))
      in case scalar (map fValue (filter (\<lambda>r. fIndex r = ''Waste disposal'') finan)) of
           Inl e \<Rightarrow> Inl e
         | Inr tip_fee \<Rightarrow>
       (let waste_cost = map (\<lambda>(i, x, y). tip_fee * x * (1 - y)) waste
        in if name' \<noteq> ''Landfilling''
           then Inr [(''Waste Disposal'', Some (sum_list waste_cost * hrs))]
           else Inr [(''Waste disposal'',
                        Some (sum_list (map snd (mats_cost design finan)) * hrs))]))"

definition other_costs :: "design_row list \<Rightarrow> finan_row list \<Rightarrow> real \<Rightarrow> line list" where
  "other_costs design finan hrs =
     (let contin = merge_inner
            (design_IV (filter (\<lambda>r. dIndex r = ''Contingency'') design))
            (finan_IV (filter (\<lambda>r. fIndex r = ''Contingency'') finan))
      in if contin = [] then [(''Contingency'', Some 0)]
         else map (\<lambda>(i, x, y). (i, Some (x * y * hrs))) contin)"

text \<open>A row of the production frame is (Index, Actual, Theoretical).\<close>

definition production :: "design_row list \<Rightarrow> real \<Rightarrow> (string \<times> real \<times> real) list" where
  "production design hrs =
     (if \<exists>r \<in> set design. dVariable r = ''Output efficiency''
      then map (\<lambda>(i, x, y). (i, x * y * hrs, x * hrs))
             (merge_inner
                (design_IV (filter (\<lambda>r. dVariable r = ''Output'') design))
                (design_IV (filter (\<lambda>r. dVariable r = ''Output efficiency'') design)))
      else map (\<lambda>(i, x). (i, x * hrs, x * hrs))
             (design_IV (filter (\<lambda>r. dVariable r = ''Output'') design)))"

text \<open>
  The common body of \<open>coproduct_revenue\<close> and \<open>product_revenue\<close>: the selected output
  lines left-merged with the sale prices.
\<close>

definition revenue_of :: "(string \<times> real \<times> real) list \<Rightarrow> finan_row list \<Rightarrow> line list" where
  "revenue_of out finan =
     (if out \<noteq> []
      then map (\<lambda>(i, (actual, theoretical), price). (i, map_option (\<lambda>v. v * actual) price))
             (merge_left out (finan_IV (filter (\<lambda>r. fVariable r = ''Output'') finan)))
      else [])"

definition coproduct_revenue :: "(string \<times> real \<times> real) list \<Rightarrow> string \<Rightarrow> finan_row list \<Rightarrow> line list" where
  "coproduct_revenue amounts product' finan =
     revenue_of (filter (\<lambda>(i, a). i \<noteq> product') amounts) finan"

definition product_revenue :: "(string \<times> real \<times> real) list \<Rightarrow> string \<Rightarrow> finan_row list \<Rightarrow> line list" where
  "product_revenue amounts product' finan =
     revenue_of (filter (\<lambda>(i, a). i = product') amounts) finan"

text \<open>
  The in-place assignment of \<open>Technology.__init__\<close> for a non-initial instance: the
  purchase cost of the two materials that the closed loop supplies is set to zero.
\<close>

definition zero_recycled_inputs :: "finan_row list \<Rightarrow> finan_row list" where
  "zero_recycled_inputs finan =
     map (\<lambda>r. if fCategory r = ''Cost'' \<and> fVariable r = ''Input''
                  \<and> fIndex r \<in> set [''Nylon 6'', ''Polyethylene'']
               then r\<lparr>fValue := 0\<rparr> else r) finan"

text \<open>
  \<open>Technology.__init__\<close>. The financial frame is shared with the caller and assigned in
  place, so the constructor returns it next to the new instance. The two \<open>sys.exit\<close>
  calls come before the assignment.
\<close>

definition Technology ::
  "string \<Rightarrow> string \<Rightarrow> design_row list \<Rightarrow> finan_row list \<Rightarrow> bool \<Rightarrow> real
     \<Rightarrow> error + (technology \<times> finan_row list)" where
  "Technology name' product' design_data financial_data initial output' =
     (let design = filter (\<lambda>r. dTechnology r = name') design_data
      in if design = [] then Inl (TechnologyNotFound name')
      else if product' \<notin> set (map dIndex (filter (\<lambda>r. dVariable r = ''Output'') design))
      then Inl (ProductNotFound product' name')
      else
      (let finan = (if \<not> initial then zero_recycled_inputs financial_data else financial_data)
       in case scalar (map fValue (filter (\<lambda>r. fVariable r = ''Operating Hours'') finan)) of
            Inl e \<Rightarrow> Inl e
          | Inr hrs \<Rightarrow>
        (case capital design finan of Inl e \<Rightarrow> Inl e | Inr (onetime, cap_annual) \<Rightarrow>
        (case labor design finan of Inl e \<Rightarrow> Inl e | Inr labor_annual \<Rightarrow>
        (case wastes name' design finan hrs of Inl e \<Rightarrow> Inl e | Inr wastes_annual \<Rightarrow>
        (let annual = cap_annual @ raw_material name' design finan hrs @ labor_annual
                        @ utilities design finan hrs @ wastes_annual
                        @ other_costs design finan hrs;
             amounts = production design hrs
         in case first_value (map (\<lambda>(i, actual, theoretical). actual) amounts) of
              Inl e \<Rightarrow> Inl e
            | Inr actual0 \<Rightarrow>
          (let norm_costs = map (\<lambda>(l, v). (l, map_option (\<lambda>v. v / actual0) v)) annual;
               revenue =
                 (if name' \<notin> set [''Barrier Film'', ''Mechanical and Solvent Cleaning'',
                                     ''Solvent Treatment and Precipitation'']
                  then product_revenue amounts product' finan
                  else coproduct_revenue amounts product' finan);
               norm_revenue = map (\<lambda>(l, v). (l, map_option (\<lambda>v. v / actual0) v)) revenue;
               net = pd_sum (map snd norm_costs) - pd_sum (map snd norm_revenue)
           in Inr (\<lparr>name = name', product = product', output_qty = output', op_hrs_yr = hrs,
                     onetime_costs = onetime, annual_costs = annual,
                     output_amounts = amounts, normalized_costs = norm_costs,
                     annual_revenue = revenue, normalized_revenue = norm_revenue,
                     net_normalized_costs = net, production_cost = output' * net\<rparr>,
                   finan))))))))"

section \<open>Scenario\<close>

text \<open>
  An entry of \<open>eol_sc\<close> is a key with its two-element list: the fraction and the number
  of cycles. The dictionary is the list of its entries in iteration order; a Python
  dictionary has no key twice, which the theorems that need it assume as
  \<open>distinct (map fst eol_sc)\<close>.
\<close>

type_synonym eol_entry = "string \<times> real \<times> int"

text \<open>The local variables that the first loop of \<open>Scenario.__init__\<close> assigns.\<close>

record mass_state =
  virg_prod :: real
  prod_masc :: real
  prod_strap :: real
  prod_amt :: real
  downst :: "string option"
  eff_downst :: "real option"

text \<open>
  The selection \<open>design[(Technology == key) & (Variable == 'Output efficiency')].Value.values[0]\<close>.
\<close>

definition output_efficiency :: "design_row list \<Rightarrow> string \<Rightarrow> error + real" where
  "output_efficiency design key =
     first_value (map dValue
       (filter (\<lambda>r. dTechnology r = key \<and> dVariable r = ''Output efficiency'') design))"

text \<open>\<open>[e**i for i in range(n+1)]\<close>; the range is empty when \<open>n + 1 \<le> 0\<close>.\<close>

definition powers :: "real \<Rightarrow> int \<Rightarrow> real list" where
  "powers e n = map (\<lambda>i. e ^ i) [0..<nat (n + 1)]"

text \<open>\<open>e**n\<close> for a float \<open>e\<close> and an integer \<open>n\<close> of either sign.\<close>

definition py_pow :: "real \<Rightarrow> int \<Rightarrow> real" where
  "py_pow e n = (if 0 \<le> n then e ^ nat n else 1 / e ^ nat (- n))"

text \<open>One iteration of the first loop (the body of lines 126 to 163).\<close>

definition mass_step ::
  "design_row list \<Rightarrow> struct_row list \<Rightarrow> real \<Rightarrow> eol_entry \<Rightarrow> mass_state \<Rightarrow> error + mass_state" where
  "mass_step design struct func_unit entry st =
     (case entry of (key, eol_frac, n_cycles) \<Rightarrow>
      (case output_efficiency design key of Inl e \<Rightarrow> Inl e | Inr recyc_eff \<Rightarrow>
       if key = ''Mechanical and Solvent Cleaning''
       then Inr (st\<lparr>virg_prod := eol_frac * func_unit / (1 + sum_list (powers recyc_eff n_cycles)),
                    prod_masc := sum_list (map (\<lambda>i. eol_frac * func_unit * recyc_eff ^ i
                                       / (1 + sum_list (powers recyc_eff n_cycles)))
                                     [0..<nat (n_cycles + 1)])\<rparr>)
       else if key = ''Solvent Treatment and Precipitation''
       then (case first_value (map sDownstream (filter (\<lambda>r. sTechnology r = key) struct)) of
               Inl e \<Rightarrow> Inl e
             | Inr d \<Rightarrow>
            (case output_efficiency design d of Inl e \<Rightarrow> Inl e | Inr ed \<Rightarrow>
               Inr (st\<lparr>downst := Some d, eff_downst := Some ed,
                       virg_prod := eol_frac * func_unit
                                      / (1 + sum_list (powers (ed * recyc_eff) n_cycles)),
                       prod_strap := sum_list (map (\<lambda>i. eol_frac * func_unit * (ed * recyc_eff) ^ i
                                           / (1 + sum_list (powers (ed * recyc_eff) n_cycles)))
                                         [0..<nat (n_cycles + 1)])\<rparr>)))
       else Inr (st\<lparr>prod_amt := prod_amt st + func_unit * eol_frac, virg_prod := func_unit\<rparr>)))"

fun mass_loop ::
  "design_row list \<Rightarrow> struct_row list \<Rightarrow> real \<Rightarrow> eol_entry list \<Rightarrow> mass_state \<Rightarrow> error + mass_state" where
  "mass_loop design struct func_unit [] st = Inr st"
| "mass_loop design struct func_unit (entry # rest) st =
     (case mass_step design struct func_unit entry st of
        Inl e \<Rightarrow> Inl e
      | Inr st' \<Rightarrow> mass_loop design struct func_unit rest st')"

text \<open>
  What the second loop assigns: the value chain, the shared financial frame, the two
  attributes \<open>eol_film_prod\<close> and \<open>eol_polyethylene_prod\<close>, and the local
  \<open>_film_to_landfill\<close>. The last three do not exist before the first iteration.
\<close>

record chain_state =
  chain :: "technology list"
  cfinan :: "finan_row list"
  eol_film :: "real option"
  eol_poly :: "real option"
  film_to_landfill :: "real option"

text \<open>The assignment \<open>finan.loc[finan.Index == 'Barrier film', 'Value'] = v\<close>.\<close>

definition set_barrier_film_value :: "real \<Rightarrow> finan_row list \<Rightarrow> finan_row list" where
  "set_barrier_film_value v finan =
     map (\<lambda>r. if fIndex r = ''Barrier film'' then r\<lparr>fValue := v\<rparr> else r) finan"

text \<open>The end of an iteration (lines 254 to 267): the final landfilling instance.\<close>

definition final_landfill_step :: "design_row list \<Rightarrow> real \<Rightarrow> chain_state \<Rightarrow> error + chain_state" where
  "final_landfill_step design film st =
     (if film \<noteq> 0
      then (case Technology ''Landfilling'' ''Landfilled waste'' design (cfinan st) True film of
              Inl e \<Rightarrow> Inl e
            | Inr (t, fin) \<Rightarrow>
                Inr (st\<lparr>chain := chain st @ [t\<lparr>name := ''Landfilling, final''\<rparr>], cfinan := fin\<rparr>))
      else Inr st)"

text \<open>One iteration of the second loop (the body of lines 180 to 267).\<close>

definition chain_step ::
  "design_row list \<Rightarrow> (string \<rightharpoonup> string) \<Rightarrow> real \<Rightarrow> mass_state \<Rightarrow> eol_entry \<Rightarrow> chain_state
     \<Rightarrow> error + chain_state" where
  "chain_step design products func_unit ms entry st =
     (case entry of (key, eol_frac, n_cycles) \<Rightarrow>
      (case output_efficiency design key of Inl e \<Rightarrow> Inl e | Inr recyc_eff \<Rightarrow>
       if key = ''Mechanical and Solvent Cleaning''
       then (case products key of None \<Rightarrow> Inl (KeyError key) | Some p \<Rightarrow>
            (case Technology key p design (cfinan st) True (prod_masc ms) of
               Inl e \<Rightarrow> Inl e
             | Inr (t, fin) \<Rightarrow>
                 (let film = virg_prod ms * eol_frac * py_pow recyc_eff n_cycles
                  in final_landfill_step design film
                       (st\<lparr>chain := chain st @ [t], cfinan := fin,
                           eol_film := Some (prod_masc ms), eol_poly := Some 0,
                           film_to_landfill := Some film\<rparr>))))
       else if key = ''Solvent Treatment and Precipitation''
       then (case products key of None \<Rightarrow> Inl (KeyError key) | Some p \<Rightarrow>
            (case eff_downst ms of None \<Rightarrow> Inl (NameError ''_eff_downst'') | Some ed \<Rightarrow>
            (case Technology key p design (cfinan st) True (0.7 * prod_strap ms / ed) of
               Inl e \<Rightarrow> Inl e
             | Inr (t, fin1) \<Rightarrow>
            (case downst ms of None \<Rightarrow> Inl (NameError ''_downst'') | Some d \<Rightarrow>
            (case Technology d ''Barrier film'' design fin1 False (prod_strap ms) of
               Inl e \<Rightarrow> Inl e
             | Inr (downst_film, fin2) \<Rightarrow>
                 (let film = virg_prod ms * eol_frac * py_pow (recyc_eff * ed) n_cycles;
                      fin3 = set_barrier_film_value (net_normalized_costs downst_film) fin2
                  in final_landfill_step design film
                       (st\<lparr>chain := chain st @ [t, downst_film], cfinan := fin3,
                           eol_film := Some (prod_strap ms),
                           eol_poly := Some (0.7 * prod_strap ms / ed),
                           film_to_landfill := Some film\<rparr>)))))))
       else (case products key of None \<Rightarrow> Inl (KeyError key) | Some p \<Rightarrow>
            (case Technology key p design (cfinan st) True (func_unit * eol_frac) of
               Inl e \<Rightarrow> Inl e
             | Inr (t, fin) \<Rightarrow>
                 (let film = (if key \<notin> set [''Landfilling'', ''Incineration'', ''Pyrolysis'']
                              then virg_prod ms * eol_frac * recyc_eff else 0)
                  in final_landfill_step design film
                       (st\<lparr>chain := chain st @ [t], cfinan := fin,
                           eol_film := Some (func_unit * eol_frac), eol_poly := Some 0,
                           film_to_landfill := Some film\<rparr>))))))"

fun chain_loop ::
  "design_row list \<Rightarrow> (string \<rightharpoonup> string) \<Rightarrow> real \<Rightarrow> mass_state \<Rightarrow> eol_entry list \<Rightarrow> chain_state
     \<Rightarrow> error + chain_state" where
  "chain_loop design products func_unit ms [] st = Inr st"
| "chain_loop design products func_unit ms (entry # rest) st =
     (case chain_step design products func_unit ms entry st of
        Inl e \<Rightarrow> Inl e
      | Inr st' \<Rightarrow> chain_loop design products func_unit ms rest st')"

text \<open>
  The attributes of a finished \<open>Scenario\<close>. \<open>s_finan\<close> is \<open>self.finan\<close> as the
  constructor leaves it. The two frames \<open>process_production_costs\<close> and
  \<open>process_annual_costs\<close> are reports of the value chain and are not kept here; building
  the second one raises when the instances do not all have the same number of annual
  cost lines, which is the last check below.
\<close>

record scenario =
  s_finan :: "finan_row list"
  value_chain :: "technology list"
  eol_film_prod :: "real option"
  eol_polyethylene_prod :: "real option"
  total_eol_cost :: real
  total_cost :: real
  virgin_prod :: real
  final_landfill :: real

text \<open>
  \<open>Scenario.__init__\<close> from line 112 on, with the three frames as arguments and no
  \<open>sens_df\<close> (its default).
\<close>

definition Scenario ::
  "string \<Rightarrow> string \<Rightarrow> real \<Rightarrow> eol_entry list \<Rightarrow> (string \<rightharpoonup> string)
     \<Rightarrow> design_row list \<Rightarrow> finan_row list \<Rightarrow> struct_row list \<Rightarrow> error + scenario" where
  "Scenario production_process product' func_unit eol_sc products design finan struct =
     (case output_efficiency design production_process of Inl e \<Rightarrow> Inl e | Inr prod_eff \<Rightarrow>
     (case mass_loop design struct func_unit eol_sc
             \<lparr>virg_prod = 0, prod_masc = 0, prod_strap = 0, prod_amt = 0,
              downst = None, eff_downst = None\<rparr> of
        Inl e \<Rightarrow> Inl e
      | Inr ms \<Rightarrow>
     (case Technology production_process product' design finan True (virg_prod ms) of
        Inl e \<Rightarrow> Inl e
      | Inr (t0, fin0) \<Rightarrow>
     (case chain_loop design products func_unit ms eol_sc
             \<lparr>chain = [t0\<lparr>name := production_process @ '', initial''\<rparr>], cfinan = fin0,
              eol_film = None, eol_poly = None, film_to_landfill = None\<rparr> of
        Inl e \<Rightarrow> Inl e
      | Inr cs \<Rightarrow>
     (case film_to_landfill cs of
        None \<Rightarrow> Inl (NameError ''_film_to_landfill'')
      | Some film \<Rightarrow>
          if \<exists>t \<in> set (chain cs). length (annual_costs t) \<noteq> length (annual_costs (hd (chain cs)))
          then Inl ValueError
          else Inr \<lparr>s_finan = cfinan cs,
                    value_chain = chain cs,
                    eol_film_prod = eol_film cs,
                    eol_polyethylene_prod = eol_poly cs,
                    total_eol_cost = sum_list (map production_cost
                      (filter (\<lambda>t. name t \<notin> set [''Sheet Molding Compound'', ''Barrier Film, initial''])
                         (chain cs))),
                    total_cost = sum_list (map production_cost (chain cs)),
                    virgin_prod = virg_prod ms,
                    final_landfill = film\<rparr>)))))"

section \<open>A small data set\<close>

text \<open>
  The data file of the repository is not part of the sources. The theorems below hold
  for every table; where one has a hypothesis, it is instantiated on this data set: four
  technologies with the output efficiencies of the two recycling processes left as
  parameters, a financial table with one row for each scalar parameter, and the
  structure row that links the solvent treatment to barrier film production.
\<close>

definition demo_design :: "real \<Rightarrow> real \<Rightarrow> design_row list" where
  "demo_design e_masc e_stp =
     [\<lparr>dTechnology = ''Barrier Film'', dVariable = ''Output'', dIndex = ''Barrier film'', dValue = 10\<rparr>,
      \<lparr>dTechnology = ''Barrier Film'', dVariable = ''Output efficiency'', dIndex = ''Barrier film'', dValue = 1\<rparr>,
      \<lparr>dTechnology = ''Barrier Film'', dVariable = ''Input'', dIndex = ''Nylon 6'', dValue = 2\<rparr>,
      \<lparr>dTechnology = ''Barrier Film'', dVariable = ''Input'', dIndex = ''Polyethylene'', dValue = 3\<rparr>,
      \<lparr>dTechnology = ''Barrier Film'', dVariable = ''Utilities'', dIndex = ''Electricity'', dValue = 5\<rparr>,
      \<lparr>dTechnology = ''Mechanical and Solvent Cleaning'', dVariable = ''Output'', dIndex = ''Barrier film'', dValue = 10\<rparr>,
      \<lparr>dTechnology = ''Mechanical and Solvent Cleaning'', dVariable = ''Output efficiency'', dIndex = ''Barrier film'', dValue = e_masc\<rparr>,
      \<lparr>dTechnology = ''Mechanical and Solvent Cleaning'', dVariable = ''Utilities'', dIndex = ''Electricity'', dValue = 5\<rparr>,
      \<lparr>dTechnology = ''Solvent Treatment and Precipitation'', dVariable = ''Output'', dIndex = ''Polyethylene'', dValue = 10\<rparr>,
      \<lparr>dTechnology = ''Solvent Treatment and Precipitation'', dVariable = ''Output efficiency'', dIndex = ''Polyethylene'', dValue = e_stp\<rparr>,
      \<lparr>dTechnology = ''Solvent Treatment and Precipitation'', dVariable = ''Utilities'', dIndex = ''Electricity'', dValue = 10\<rparr>,
      \<lparr>dTechnology = ''Landfilling'', dVariable = ''Output'', dIndex = ''Landfilled waste'', dValue = 10\<rparr>,
      \<lparr>dTechnology = ''Landfilling'', dVariable = ''Output efficiency'', dIndex = ''Landfilled waste'', dValue = 1\<rparr>,
      \<lparr>dTechnology = ''Landfilling'', dVariable = ''Input'', dIndex = ''Barrier film'', dValue = 10\<rparr>]"

definition demo_finan :: "finan_row list" where
  "demo_finan =
     [\<lparr>fCategory = ''Parameter'', fVariable = ''Operating Hours'', fIndex = ''Hours'', fValue = 2\<rparr>,
      \<lparr>fCategory = ''Parameter'', fVariable = ''Working Hours'', fIndex = ''Hours'', fValue = 2\<rparr>,
      \<lparr>fCategory = ''Cost Multiplier'', fVariable = ''Multiplier'', fIndex = ''Installation'', fValue = 1\<rparr>,
      \<lparr>fCategory = ''Cost Multiplier'', fVariable = ''Multiplier'', fIndex = ''Maintenance'', fValue = 1\<rparr>,
      \<lparr>fCategory = ''Cost Multiplier'', fVariable = ''Labor'', fIndex = ''Burden'', fValue = 1\<rparr>,
      \<lparr>fCategory = ''Cost'', fVariable = ''Waste'', fIndex = ''Waste disposal'', fValue = 1\<rparr>,
      \<lparr>fCategory = ''Cost'', fVariable = ''Utilities'', fIndex = ''Electricity'', fValue = 1\<rparr>,
      \<lparr>fCategory = ''Cost'', fVariable = ''Input'', fIndex = ''Nylon 6'', fValue = 1\<rparr>,
      \<lparr>fCategory = ''Cost'', fVariable = ''Input'', fIndex = ''Polyethylene'', fValue = 1\<rparr>,
      \<lparr>fCategory = ''Cost'', fVariable = ''Input'', fIndex = ''Barrier film'', fValue = 4\<rparr>]"

definition demo_struct :: "struct_row list" where
  "demo_struct =
     [\<lparr>sTechnology = ''Solvent Treatment and Precipitation'', sDownstream = ''Barrier Film''\<rparr>]"

definition demo_products :: "string \<rightharpoonup> string" where
  "demo_products =
     [''Mechanical and Solvent Cleaning'' \<mapsto> ''Barrier film'',
      ''Solvent Treatment and Precipitation'' \<mapsto> ''Polyethylene'',
      ''Landfilling'' \<mapsto> ''Landfilled waste'']"

text \<open>
  The financial table has exactly one row for each of the six scalar parameters that the
  methods read with \<open>.values\<close>: the operating hours, the installation and maintenance
  multipliers, the working hours, the labor burden and the tipping fee.
\<close>

definition scalars_present :: "finan_row list \<Rightarrow> bool" where
  "scalars_present finan \<longleftrightarrow>
     length (filter (\<lambda>r. fVariable r = ''Operating Hours'') finan) = 1 \<and>
     length (filter (\<lambda>r. fIndex r = ''Installation'') finan) = 1 \<and>
     length (filter (\<lambda>r. fIndex r = ''Maintenance'') finan) = 1 \<and>
     length (filter (\<lambda>r. fVariable r = ''Working Hours'') finan) = 1 \<and>
     length (filter (\<lambda>r. fCategory r = ''Cost Multiplier'' \<and> fVariable r = ''Labor'') finan) = 1 \<and>
     length (filter (\<lambda>r. fIndex r = ''Waste disposal'') finan) = 1"

text \<open>
  Barrier film production whose efficiency row carries another Index than its Output row.
\<close>

definition unmatched_efficiency_design :: "design_row list" where
  "unmatched_efficiency_design =
     [\<lparr>dTechnology = ''Barrier Film'', dVariable = ''Output'', dIndex = ''Barrier film'', dValue = 10\<rparr>,
      \<lparr>dTechnology = ''Barrier Film'', dVariable = ''Output efficiency'', dIndex = ''Film'', dValue = 1\<rparr>]"

text \<open>
  A solvent treatment with two Output lines, of which only the first has an efficiency row.
\<close>

definition two_output_design :: "design_row list" where
  "two_output_design =
     [\<lparr>dTechnology = ''Solvent Treatment and Precipitation'', dVariable = ''Output'', dIndex = ''Polyethylene'', dValue = 10\<rparr>,
      \<lparr>dTechnology = ''Solvent Treatment and Precipitation'', dVariable = ''Output'', dIndex = ''Nylon 6'', dValue = 5\<rparr>,
      \<lparr>dTechnology = ''Solvent Treatment and Precipitation'', dVariable = ''Output efficiency'', dIndex = ''Polyethylene'', dValue = 1 / 2\<rparr>]"

text \<open>
  Barrier film production that lists a by-product before its primary product: 5 an hour
  of scrap, 10 an hour of barrier film, from 5 an hour of nylon.
\<close>

definition byproduct_first_design :: "design_row list" where
  "byproduct_first_design =
     [\<lparr>dTechnology = ''Barrier Film'', dVariable = ''Output'', dIndex = ''Scrap'', dValue = 5\<rparr>,
      \<lparr>dTechnology = ''Barrier Film'', dVariable = ''Output'', dIndex = ''Barrier film'', dValue = 10\<rparr>,
      \<lparr>dTechnology = ''Barrier Film'', dVariable = ''Input'', dIndex = ''Nylon 6'', dValue = 5\<rparr>]"

section \<open>What a finished Technology holds\<close>

text \<open>
  When the constructor returns, every stage has succeeded, and the attributes are the
  values of the stages. The record is read off the definition one stage at a time.
\<close>

lemma Technology_Inr:
  assumes "Technology nm pr d fin init q = Inr (t, fin')"
  shows "\<exists>hrs onetime cap_annual labor_annual wastes_annual actual0.
    filter (\<lambda>r. dTechnology r = nm) d \<noteq> [] \<and>
    pr \<in> set (map dIndex (filter (\<lambda>r. dVariable r = ''Output'') (filter (\<lambda>r. dTechnology r = nm) d))) \<and>
    fin' = (if init then fin else zero_recycled_inputs fin) \<and>
    scalar (map fValue (filter (\<lambda>r. fVariable r = ''Operating Hours'') fin')) = Inr hrs \<and>
    capital (filter (\<lambda>r. dTechnology r = nm) d) fin' = Inr (onetime, cap_annual) \<and>
    labor (filter (\<lambda>r. dTechnology r = nm) d) fin' = Inr labor_annual \<and>
    wastes nm (filter (\<lambda>r. dTechnology r = nm) d) fin' hrs = Inr wastes_annual \<and>
    first_value (map (\<lambda>(i, actual, theoretical). actual)
      (production (filter (\<lambda>r. dTechnology r = nm) d) hrs)) = Inr actual0 \<and>
    name t = nm \<and> product t = pr \<and> output_qty t = q \<and> op_hrs_yr t = hrs \<and>
    onetime_costs t = onetime \<and>
    annual_costs t =
      cap_annual @ raw_material nm (filter (\<lambda>r. dTechnology r = nm) d) fin' hrs @ labor_annual
        @ utilities (filter (\<lambda>r. dTechnology r = nm) d) fin' hrs @ wastes_annual
        @ other_costs (filter (\<lambda>r. dTechnology r = nm) d) fin' hrs \<and>
    output_amounts t = production (filter (\<lambda>r. dTechnology r = nm) d) hrs \<and>
    normalized_costs t = map (\<lambda>(l, v). (l, map_option (\<lambda>v. v / actual0) v)) (annual_costs t) \<and>
    annual_revenue t =
      (if nm \<notin> set [''Barrier Film'', ''Mechanical and Solvent Cleaning'',
                      ''Solvent Treatment and Precipitation'']
       then product_revenue (output_amounts t) pr fin'
       else coproduct_revenue (output_amounts t) pr fin') \<and>
    normalized_revenue t = map (\<lambda>(l, v). (l, map_option (\<lambda>v. v / actual0) v)) (annual_revenue t) \<and>
    net_normalized_costs t =
      pd_sum (map snd (normalized_costs t)) - pd_sum (map snd (normalized_revenue t)) \<and>
    production_cost t = output_qty t * net_normalized_costs t"
proof -
  let ?design = "filter (\<lambda>r. dTechnology r = nm) d"
  let ?finan = "if init then fin else zero_recycled_inputs fin"
  let ?norm = "\<lambda>a ls. map (\<lambda>(l, v). (l, map_option (\<lambda>v. v / a) v)) (ls :: line list)"
  have eq: "Inr (t, fin') = Technology nm pr d fin init q"
    using assms by simp
  have 1: "?design \<noteq> []"
    using assms unfolding Technology_def Let_def by (simp split: if_splits)
  have 2: "pr \<in> set (map dIndex (filter (\<lambda>r. dVariable r = ''Output'') ?design))"
    using assms 1 unfolding Technology_def Let_def by (simp split: if_splits)
  have fin: "(if \<not> init then zero_recycled_inputs fin else fin) = ?finan"
    by simp
  note body = eq [unfolded Technology_def Let_def fin if_not_P [OF 1],
      simplified 2 not_True_eq_False if_False]
  obtain hrs where 3:
    "scalar (map fValue (filter (\<lambda>r. fVariable r = ''Operating Hours'') ?finan)) = Inr hrs"
    using body
    by (cases "scalar (map fValue (filter (\<lambda>r. fVariable r = ''Operating Hours'') ?finan))")
      simp_all
  obtain onetime cap_annual where 4: "capital ?design ?finan = Inr (onetime, cap_annual)"
    using body 3 by (cases "capital ?design ?finan") auto
  obtain labor_annual where 5: "labor ?design ?finan = Inr labor_annual"
    using body 3 4 by (cases "labor ?design ?finan") auto
  obtain wastes_annual where 6: "wastes nm ?design ?finan hrs = Inr wastes_annual"
    using body 3 4 5 by (cases "wastes nm ?design ?finan hrs") auto
  obtain actual0 where 7:
    "first_value (map (\<lambda>(i, actual, theoretical). actual) (production ?design hrs)) = Inr actual0"
    using body 3 4 5 6
    by (cases "first_value (map (\<lambda>(i, actual, theoretical). actual) (production ?design hrs))")
      auto
  let ?annual = "cap_annual @ raw_material nm ?design ?finan hrs @ labor_annual
                   @ utilities ?design ?finan hrs @ wastes_annual
                   @ other_costs ?design ?finan hrs"
  let ?revenue = "if nm \<notin> set [''Barrier Film'', ''Mechanical and Solvent Cleaning'',
                                  ''Solvent Treatment and Precipitation'']
                  then product_revenue (production ?design hrs) pr ?finan
                  else coproduct_revenue (production ?design hrs) pr ?finan"
  let ?net = "pd_sum (map snd (?norm actual0 ?annual)) - pd_sum (map snd (?norm actual0 ?revenue))"
  from body 3 4 5 6 7 have f: "fin' = ?finan"
    by simp
  from body 3 4 5 6 7 have "t = \<lparr>name = nm, product = pr, output_qty = q, op_hrs_yr = hrs,
      onetime_costs = onetime, annual_costs = ?annual,
      output_amounts = production ?design hrs, normalized_costs = ?norm actual0 ?annual,
      annual_revenue = ?revenue, normalized_revenue = ?norm actual0 ?revenue,
      net_normalized_costs = ?net, production_cost = q * ?net\<rparr>"
    by (simp only: sum.case prod.case sum.inject prod.inject)
  with 1 2 3 4 5 6 7 f show ?thesis
    by simp
qed

lemma Technology_finan:
  assumes "Technology nm pr d fin init q = Inr (t, fin')"
  shows "fin' = (if init then fin else zero_recycled_inputs fin)"
  using Technology_Inr [OF assms] by blast

lemma Technology_fields:
  assumes "Technology nm pr d fin init q = Inr (t, fin')"
  shows "name t = nm" and "product t = pr" and "output_qty t = q"
    and "production_cost t = q * net_normalized_costs t"
  using Technology_Inr [OF assms] by auto

lemma zero_recycled_inputs_idem:
  "zero_recycled_inputs (zero_recycled_inputs fin) = zero_recycled_inputs fin"
  by (induction fin) (auto simp: zero_recycled_inputs_def)

lemma zero_recycled_inputs_length: "length (zero_recycled_inputs fin) = length fin"
  by (simp add: zero_recycled_inputs_def)

lemma zero_recycled_inputs_nth:
  "i < length fin \<Longrightarrow> zero_recycled_inputs fin ! i =
     (if fCategory (fin ! i) = ''Cost'' \<and> fVariable (fin ! i) = ''Input''
           \<and> fIndex (fin ! i) \<in> {''Nylon 6'', ''Polyethylene''}
      then (fin ! i)\<lparr>fValue := 0\<rparr> else fin ! i)"
  by (simp add: zero_recycled_inputs_def)

text \<open>
  Claim C5. A non-initial constructor sets the value of exactly the rows with Category
  Cost, Variable Input and Index Nylon 6 or Polyethylene to zero and leaves every other
  row, and the order of the rows, as they are; an initial constructor leaves the whole
  table as it is. The table it hands back is the one every later constructor receives,
  and after a non-initial constructor no later one, initial or not, changes it again.
\<close>

theorem C5_recycled_input_rows_zeroed:
  assumes "Technology nm pr d fin init q = Inr (t, fin')"
  shows "length fin' = length fin \<and>
    (\<forall>i < length fin. fin' ! i =
       (if \<not> init \<and> fCategory (fin ! i) = ''Cost'' \<and> fVariable (fin ! i) = ''Input''
             \<and> fIndex (fin ! i) \<in> {''Nylon 6'', ''Polyethylene''}
        then (fin ! i)\<lparr>fValue := 0\<rparr> else fin ! i)) \<and>
    (\<not> init \<longrightarrow> (\<forall>nm2 pr2 d2 init2 q2 t2 fin2.
       Technology nm2 pr2 d2 fin' init2 q2 = Inr (t2, fin2) \<longrightarrow> fin2 = fin'))"
proof -
  have f: "fin' = (if init then fin else zero_recycled_inputs fin)"
    using assms by (rule Technology_finan)
  have len: "length fin' = length fin"
    using f by (simp add: zero_recycled_inputs_length)
  have rows: "\<forall>i < length fin. fin' ! i =
       (if \<not> init \<and> fCategory (fin ! i) = ''Cost'' \<and> fVariable (fin ! i) = ''Input''
             \<and> fIndex (fin ! i) \<in> {''Nylon 6'', ''Polyethylene''}
        then (fin ! i)\<lparr>fValue := 0\<rparr> else fin ! i)"
    using f by (cases init) (simp_all add: zero_recycled_inputs_nth)
  have later: "fin2 = fin'"
    if "\<not> init" and "Technology nm2 pr2 d2 fin' init2 q2 = Inr (t2, fin2)"
    for nm2 pr2 d2 init2 q2 t2 fin2
  proof -
    have "fin2 = (if init2 then fin' else zero_recycled_inputs fin')"
      using that(2) by (rule Technology_finan)
    moreover have "zero_recycled_inputs fin' = fin'"
      using f that(1) by (simp add: zero_recycled_inputs_idem)
    ultimately show ?thesis
      by simp
  qed
  from len rows later show ?thesis
    by blast
qed

lemmas tech_defs = Technology_def capital_def labor_def wastes_def raw_material_def utilities_def
  other_costs_def production_def product_revenue_def coproduct_revenue_def revenue_of_def
  mats_cost_def merge_inner_def merge_left_def design_IV_def finan_IV_def scalar_def
  first_value_def zero_recycled_inputs_def Let_def

lemma demo_regeneration_runs:
  "\<exists>t. Technology ''Barrier Film'' ''Barrier film'' (demo_design 1 1) demo_finan False 1
        = Inr (t, zero_recycled_inputs demo_finan)"
  by (simp add: tech_defs demo_design_def demo_finan_def)

theorem C5_witness:
  "Technology ''Barrier Film'' ''Barrier film'' (demo_design 1 1) demo_finan False 1
     = Inr (projr (Technology ''Barrier Film'' ''Barrier film'' (demo_design 1 1) demo_finan False 1))
   \<and> length (snd (projr (Technology ''Barrier Film'' ''Barrier film'' (demo_design 1 1)
        demo_finan False 1))) = 10
   \<and> snd (projr (Technology ''Barrier Film'' ''Barrier film'' (demo_design 1 1)
        demo_finan False 1)) ! 7
      = \<lparr>fCategory = ''Cost'', fVariable = ''Input'', fIndex = ''Nylon 6'', fValue = 0\<rparr>
   \<and> snd (projr (Technology ''Barrier Film'' ''Barrier film'' (demo_design 1 1)
        demo_finan False 1)) ! 9
      = \<lparr>fCategory = ''Cost'', fVariable = ''Input'', fIndex = ''Barrier film'', fValue = 4\<rparr>"
proof -
  obtain t where ev:
    "Technology ''Barrier Film'' ''Barrier film'' (demo_design 1 1) demo_finan False 1
       = Inr (t, zero_recycled_inputs demo_finan)"
    using demo_regeneration_runs by blast
  have len: "length demo_finan = 10"
    by (simp add: demo_finan_def)
  have r7: "demo_finan ! 7
      = \<lparr>fCategory = ''Cost'', fVariable = ''Input'', fIndex = ''Nylon 6'', fValue = 1\<rparr>"
    by (simp add: demo_finan_def)
  have r9: "demo_finan ! 9
      = \<lparr>fCategory = ''Cost'', fVariable = ''Input'', fIndex = ''Barrier film'', fValue = 4\<rparr>"
    by (simp add: demo_finan_def)
  from C5_recycled_input_rows_zeroed [OF ev] len r7 r9 show ?thesis
    unfolding ev by simp
qed

section \<open>Production amounts\<close>

lemma merge_inner_set:
  "(i, x, y) \<in> set (merge_inner left right) \<longleftrightarrow> (i, x) \<in> set left \<and> (i, y) \<in> set right"
  by (induction left) (auto simp: merge_inner_def)

lemma merge_inner_Nil:
  "merge_inner left right = [] \<longleftrightarrow> fst ` set left \<inter> fst ` set right = {}"
proof
  assume e: "merge_inner left right = []"
  show "fst ` set left \<inter> fst ` set right = {}"
  proof (rule ccontr)
    assume "fst ` set left \<inter> fst ` set right \<noteq> {}"
    then obtain i x y where "(i, x) \<in> set left" "(i, y) \<in> set right"
      by fastforce
    then have "(i, x, y) \<in> set (merge_inner left right)"
      by (simp add: merge_inner_set)
    with e show False
      by simp
  qed
next
  assume d: "fst ` set left \<inter> fst ` set right = {}"
  show "merge_inner left right = []"
  proof (cases "merge_inner left right")
    case Nil
    then show ?thesis .
  next
    case (Cons a as)
    obtain i x y where "a = (i, x, y)"
      by (cases a)
    with Cons have "(i, x, y) \<in> set (merge_inner left right)"
      by simp
    then have "(i, x) \<in> set left" "(i, y) \<in> set right"
      by (simp_all add: merge_inner_set)
    then have "i \<in> fst ` set left \<inter> fst ` set right"
      by force
    with d show ?thesis
      by simp
  qed
qed

text \<open>
  The lines of the production frame. The test for an efficiency row is made once for the
  technology. When the technology has an efficiency row, the frame has one line for every
  Output row paired with an efficiency row of the same Index, with theoretical = nominal
  amount times operating hours and actual = theoretical times that efficiency. When the
  technology has no efficiency row at all, every Output row has a line, with
  actual = theoretical.
\<close>

lemma production_lines:
  "(i, actual, theoretical) \<in> set (production design hrs) \<longleftrightarrow>
     (if \<exists>r \<in> set design. dVariable r = ''Output efficiency''
      then \<exists>out \<in> set design. \<exists>eff \<in> set design.
             dVariable out = ''Output'' \<and> dVariable eff = ''Output efficiency''
             \<and> dIndex out = i \<and> dIndex eff = i
             \<and> theoretical = dValue out * hrs \<and> actual = theoretical * dValue eff
      else \<exists>out \<in> set design.
             dVariable out = ''Output'' \<and> dIndex out = i
             \<and> theoretical = dValue out * hrs \<and> actual = theoretical)"
proof (cases "\<exists>r \<in> set design. dVariable r = ''Output efficiency''")
  case True
  have "(i, actual, theoretical) \<in> set (production design hrs) \<longleftrightarrow>
      (\<exists>x y. (i, x, y) \<in> set (merge_inner
                (design_IV (filter (\<lambda>r. dVariable r = ''Output'') design))
                (design_IV (filter (\<lambda>r. dVariable r = ''Output efficiency'') design)))
         \<and> actual = x * y * hrs \<and> theoretical = x * hrs)"
    using True by (force simp: production_def)
  also have "\<dots> \<longleftrightarrow> (\<exists>out \<in> set design. \<exists>eff \<in> set design.
             dVariable out = ''Output'' \<and> dVariable eff = ''Output efficiency''
             \<and> dIndex out = i \<and> dIndex eff = i
             \<and> theoretical = dValue out * hrs \<and> actual = theoretical * dValue eff)"
    (is "?L \<longleftrightarrow> ?R")
  proof
    assume ?L
    then obtain x y where xy:
      "(i, x) \<in> set (design_IV (filter (\<lambda>r. dVariable r = ''Output'') design))"
      "(i, y) \<in> set (design_IV (filter (\<lambda>r. dVariable r = ''Output efficiency'') design))"
      "actual = x * y * hrs" "theoretical = x * hrs"
      by (auto simp: merge_inner_set)
    from xy(1) obtain out where out:
      "out \<in> set design" "dVariable out = ''Output''" "dIndex out = i" "dValue out = x"
      by (auto simp: design_IV_def)
    from xy(2) obtain eff where eff:
      "eff \<in> set design" "dVariable eff = ''Output efficiency''" "dIndex eff = i" "dValue eff = y"
      by (auto simp: design_IV_def)
    have "theoretical = dValue out * hrs" "actual = theoretical * dValue eff"
      using xy(3,4) out(4) eff(4) by simp_all
    with out eff show ?R
      by blast
  next
    assume ?R
    then obtain out eff where oe:
      "out \<in> set design" "dVariable out = ''Output''" "dIndex out = i"
      "eff \<in> set design" "dVariable eff = ''Output efficiency''" "dIndex eff = i"
      "theoretical = dValue out * hrs" "actual = theoretical * dValue eff"
      by blast
    have "(i, dValue out) \<in> set (design_IV (filter (\<lambda>r. dVariable r = ''Output'') design))"
      using oe(1,2,3) by (force simp: design_IV_def)
    moreover have "(i, dValue eff)
        \<in> set (design_IV (filter (\<lambda>r. dVariable r = ''Output efficiency'') design))"
      using oe(4,5,6) by (force simp: design_IV_def)
    moreover have "actual = dValue out * dValue eff * hrs"
      using oe(7,8) by simp
    ultimately show ?L
      using oe(7) by (auto simp: merge_inner_set)
  qed
  finally show ?thesis
    using True by simp
next
  case False
  then show ?thesis
    by (force simp: production_def design_IV_def)
qed

text \<open>
  Claim C7: every Output line is in the production frame, with actual = theoretical when
  it has no efficiency row. The code does this only for a technology without any
  efficiency row. On a solvent treatment with the Output lines Polyethylene (10 an hour,
  efficiency 1/2) and Nylon 6 (5 an hour, no efficiency row) and 2 operating hours, the
  inner merge keeps the Polyethylene line alone: the Nylon 6 line, which the claim has in
  the frame with actual = theoretical = 10, is not there.
\<close>

theorem C7_output_line_without_efficiency_dropped:
  "''Nylon 6'' \<in> set (map dIndex (filter (\<lambda>r. dVariable r = ''Output'') two_output_design))
   \<and> production two_output_design 2 = [(''Polyethylene'', 10, 20)]"
  by (simp add: two_output_design_def production_def merge_inner_def design_IV_def)

section \<open>The two exits and the index error\<close>

lemma Technology_not_found:
  "filter (\<lambda>r. dTechnology r = nm) d = []
     \<Longrightarrow> Technology nm pr d fin init q = Inl (TechnologyNotFound nm)"
  by (simp add: Technology_def)

lemma Technology_product_not_found:
  "filter (\<lambda>r. dTechnology r = nm) d \<noteq> []
     \<Longrightarrow> pr \<notin> set (map dIndex (filter (\<lambda>r. dVariable r = ''Output'')
                                   (filter (\<lambda>r. dTechnology r = nm) d)))
     \<Longrightarrow> Technology nm pr d fin init q = Inl (ProductNotFound pr nm)"
  by (simp add: Technology_def Let_def)

lemma scalar_single: "length vs = 1 \<Longrightarrow> \<exists>v. scalar vs = Inr v"
  by (cases vs) (auto simp: scalar_def split: list.splits)

lemma filter_zero_recycled_inputs:
  assumes "\<And>r. P (r\<lparr>fValue := 0\<rparr>) = P r"
  shows "length (filter P (zero_recycled_inputs fin)) = length (filter P fin)"
  using assms by (induction fin) (auto simp: zero_recycled_inputs_def)

lemma scalars_present_zero_recycled_inputs:
  "scalars_present (zero_recycled_inputs fin) = scalars_present fin"
  by (simp add: scalars_present_def filter_zero_recycled_inputs)

lemma capital_runs:
  assumes "scalars_present fin"
  shows "\<exists>onetime annual. capital design fin = Inr (onetime, annual)"
proof -
  obtain inst where "scalar (map fValue (filter (\<lambda>r. fIndex r = ''Installation'') fin)) = Inr inst"
    using assms scalar_single [of "map fValue (filter (\<lambda>r. fIndex r = ''Installation'') fin)"]
    by (auto simp: scalars_present_def)
  moreover obtain maint where
    "scalar (map fValue (filter (\<lambda>r. fIndex r = ''Maintenance'') fin)) = Inr maint"
    using assms scalar_single [of "map fValue (filter (\<lambda>r. fIndex r = ''Maintenance'') fin)"]
    by (auto simp: scalars_present_def)
  ultimately show ?thesis
    by (simp add: capital_def Let_def)
qed

lemma labor_runs:
  assumes "scalars_present fin"
  shows "\<exists>annual. labor design fin = Inr annual"
proof -
  obtain wh where "scalar (map fValue (filter (\<lambda>r. fVariable r = ''Working Hours'') fin)) = Inr wh"
    using assms scalar_single [of "map fValue (filter (\<lambda>r. fVariable r = ''Working Hours'') fin)"]
    by (auto simp: scalars_present_def)
  moreover obtain b where "scalar (map fValue
      (filter (\<lambda>r. fCategory r = ''Cost Multiplier'' \<and> fVariable r = ''Labor'') fin)) = Inr b"
    using assms scalar_single [of "map fValue
      (filter (\<lambda>r. fCategory r = ''Cost Multiplier'' \<and> fVariable r = ''Labor'') fin)"]
    by (auto simp: scalars_present_def)
  ultimately show ?thesis
    by (simp add: labor_def Let_def)
qed

lemma wastes_runs:
  assumes "scalars_present fin"
  shows "\<exists>annual. wastes nm design fin hrs = Inr annual"
proof -
  obtain fee where "scalar (map fValue (filter (\<lambda>r. fIndex r = ''Waste disposal'') fin)) = Inr fee"
    using assms scalar_single [of "map fValue (filter (\<lambda>r. fIndex r = ''Waste disposal'') fin)"]
    by (auto simp: scalars_present_def)
  then show ?thesis
    by (simp add: wastes_def Let_def)
qed

text \<open>
  With both rows present and one financial row for each scalar parameter, the only
  stage left that can stop the constructor is the read of the first production line.
\<close>

lemma Technology_runs:
  assumes rows: "filter (\<lambda>r. dTechnology r = nm) d \<noteq> []"
    and prod: "pr \<in> set (map dIndex (filter (\<lambda>r. dVariable r = ''Output'')
                                   (filter (\<lambda>r. dTechnology r = nm) d)))"
    and fin: "scalars_present fin"
  shows "\<exists>hrs. scalar (map fValue (filter (\<lambda>r. fVariable r = ''Operating Hours'')
                  (if init then fin else zero_recycled_inputs fin))) = Inr hrs \<and>
           (if production (filter (\<lambda>r. dTechnology r = nm) d) hrs = []
            then Technology nm pr d fin init q = Inl IndexError
            else \<exists>t fin'. Technology nm pr d fin init q = Inr (t, fin'))"
proof -
  let ?design = "filter (\<lambda>r. dTechnology r = nm) d"
  let ?finan = "if init then fin else zero_recycled_inputs fin"
  have f: "(if \<not> init then zero_recycled_inputs fin else fin) = ?finan"
    by simp
  have sp: "scalars_present ?finan"
    using fin by (simp add: scalars_present_zero_recycled_inputs)
  obtain hrs where 3:
    "scalar (map fValue (filter (\<lambda>r. fVariable r = ''Operating Hours'') ?finan)) = Inr hrs"
    using sp scalar_single [of "map fValue (filter (\<lambda>r. fVariable r = ''Operating Hours'') ?finan)"]
    by (auto simp: scalars_present_def)
  obtain onetime cap_annual where 4: "capital ?design ?finan = Inr (onetime, cap_annual)"
    using capital_runs [OF sp] by blast
  obtain labor_annual where 5: "labor ?design ?finan = Inr labor_annual"
    using labor_runs [OF sp] by blast
  obtain wastes_annual where 6: "wastes nm ?design ?finan hrs = Inr wastes_annual"
    using wastes_runs [OF sp] by blast
  note body = Technology_def [of nm pr d fin init q, unfolded Let_def f if_not_P [OF rows],
      simplified prod not_True_eq_False if_False]
  show ?thesis
  proof (cases "production ?design hrs")
    case Nil
    then have "Technology nm pr d fin init q = Inl IndexError"
      using body 3 4 5 6 by (simp add: first_value_def)
    with 3 Nil show ?thesis
      by auto
  next
    case (Cons l ls)
    then have "\<exists>t fin'. Technology nm pr d fin init q = Inr (t, fin')"
      using body 3 4 5 6 by (simp add: first_value_def split: prod.splits)
    with 3 Cons show ?thesis
      by auto
  qed
qed

text \<open>
  Claim C6: the constructor stops only when the technology or the product is missing.
  Here the design table has rows for Barrier Film and Barrier film is the Index of an
  Output row, so neither exit is taken; the efficiency row carries another Index, the
  inner merge of \<open>production\<close> is empty, and \<open>values[0]\<close> raises an index error.
\<close>

theorem C6_index_error_with_both_rows_present:
  "filter (\<lambda>r. dTechnology r = ''Barrier Film'') unmatched_efficiency_design \<noteq> []
   \<and> ''Barrier film'' \<in> set (map dIndex (filter (\<lambda>r. dVariable r = ''Output'')
         (filter (\<lambda>r. dTechnology r = ''Barrier Film'') unmatched_efficiency_design)))
   \<and> Technology ''Barrier Film'' ''Barrier film'' unmatched_efficiency_design demo_finan True 1
       = Inl IndexError"
  by (simp add: tech_defs unmatched_efficiency_design_def demo_finan_def)

text \<open>
  Claim C3: costs and revenue are normalized by the actual amount of the primary product.
  The code divides by the actual amount of the first line of the production frame,
  whichever product that is. Here the primary product Barrier film is the second Output
  line; its actual amount is 20 a year, and the raw material cost of 10 a year is
  divided by the 10 a year of scrap: the normalized cost is 1 where the claim has 1/2,
  and the production cost of one unit is 1 where the claim has 1/2.
\<close>

theorem C3_normalized_by_first_output_line:
  "Technology ''Barrier Film'' ''Barrier film'' byproduct_first_design demo_finan True 1 =
     Inr (\<lparr>name = ''Barrier Film'', product = ''Barrier film'', output_qty = 1, op_hrs_yr = 2,
           onetime_costs = [(''Capital Purchased'', Some 0), (''Capital Installed'', Some 0)],
           annual_costs =
             [(''Capital, Annualized'', Some 0), (''Maintenance'', Some 0),
              (''Raw Material'', Some 10), (''Barrier Film'', Some 0),
              (''Labor'', Some 0), (''Utilities'', Some 0),
              (''Waste Disposal'', Some 0), (''Contingency'', Some 0)],
           output_amounts = [(''Scrap'', 10, 10), (''Barrier film'', 20, 20)],
           normalized_costs =
             [(''Capital, Annualized'', Some 0), (''Maintenance'', Some 0),
              (''Raw Material'', Some 1), (''Barrier Film'', Some 0),
              (''Labor'', Some 0), (''Utilities'', Some 0),
              (''Waste Disposal'', Some 0), (''Contingency'', Some 0)],
           annual_revenue = [(''Scrap'', None)],
           normalized_revenue = [(''Scrap'', None)],
           net_normalized_costs = 1, production_cost = 1\<rparr>,
          demo_finan)"
  by (simp add: tech_defs byproduct_first_design_def demo_finan_def)

section \<open>The two loops\<close>

lemma mass_loop_snoc:
  assumes "mass_loop d s fu (es @ [entry]) st = Inr st'"
  shows "\<exists>st1. mass_loop d s fu es st = Inr st1 \<and> mass_step d s fu entry st1 = Inr st'"
  using assms
  by (induction es arbitrary: st) (auto split: sum.splits)

lemma chain_loop_snoc:
  assumes "chain_loop d p fu ms (es @ [entry]) st = Inr st'"
  shows "\<exists>st1. chain_loop d p fu ms es st = Inr st1 \<and> chain_step d p fu ms entry st1 = Inr st'"
  using assms
  by (induction es arbitrary: st) (auto split: sum.splits)

lemma sum_list_powers: "0 \<le> n \<Longrightarrow> sum_list (powers e n) = (\<Sum>i\<le>nat n. e ^ i)"
proof -
  assume "0 \<le> n"
  then have "nat (n + 1) = Suc (nat n)"
    by simp
  then have "sum_list (powers e n) = sum_list (map (\<lambda>i. e ^ i) [0..<Suc (nat n)])"
    by (simp add: powers_def)
  also have "\<dots> = (\<Sum>i\<in>set [0..<Suc (nat n)]. e ^ i)"
    by (rule interv_sum_list_conv_sum_set_nat)
  also have "set [0..<Suc (nat n)] = {..nat n}"
    by auto
  finally show ?thesis .
qed

text \<open>What one iteration of the first loop assigns, by the key of the entry.\<close>

lemma mass_step_masc:
  assumes "mass_step d s fu (''Mechanical and Solvent Cleaning'', f, n) st = Inr st'"
  shows "\<exists>e. output_efficiency d ''Mechanical and Solvent Cleaning'' = Inr e \<and>
    st' = st\<lparr>virg_prod := f * fu / (1 + sum_list (powers e n)),
             prod_masc := sum_list (map (\<lambda>i. f * fu * e ^ i / (1 + sum_list (powers e n)))
                                        [0..<nat (n + 1)])\<rparr>"
  using assms by (auto simp: mass_step_def split: sum.splits)

lemma mass_step_stp:
  assumes "mass_step d s fu (''Solvent Treatment and Precipitation'', f, n) st = Inr st'"
  shows "\<exists>e dn ed. output_efficiency d ''Solvent Treatment and Precipitation'' = Inr e \<and>
    first_value (map sDownstream
      (filter (\<lambda>r. sTechnology r = ''Solvent Treatment and Precipitation'') s)) = Inr dn \<and>
    output_efficiency d dn = Inr ed \<and>
    st' = st\<lparr>downst := Some dn, eff_downst := Some ed,
             virg_prod := f * fu / (1 + sum_list (powers (ed * e) n)),
             prod_strap := sum_list (map (\<lambda>i. f * fu * (ed * e) ^ i
                                             / (1 + sum_list (powers (ed * e) n)))
                                         [0..<nat (n + 1)])\<rparr>"
  using assms by (auto simp: mass_step_def split: sum.splits)

lemma mass_step_other:
  assumes "mass_step d s fu (key, f, n) st = Inr st'"
    and "key \<noteq> ''Mechanical and Solvent Cleaning''"
    and "key \<noteq> ''Solvent Treatment and Precipitation''"
  shows "\<exists>e. output_efficiency d key = Inr e \<and>
    st' = st\<lparr>prod_amt := prod_amt st + fu * f, virg_prod := fu\<rparr>"
  using assms by (auto simp: mass_step_def split: sum.splits)

text \<open>The final landfilling instance is initial: it leaves the financial frame as it is.\<close>

lemma final_landfill_step_Inr:
  assumes "final_landfill_step d film st = Inr st'"
  shows "if film \<noteq> 0
         then \<exists>t. Technology ''Landfilling'' ''Landfilled waste'' d (cfinan st) True film
                     = Inr (t, cfinan st) \<and>
                   st' = st\<lparr>chain := chain st @ [t\<lparr>name := ''Landfilling, final''\<rparr>]\<rparr>
         else st' = st"
proof (cases "film = 0")
  case True
  with assms show ?thesis
    by (simp add: final_landfill_step_def)
next
  case False
  with assms obtain t fin where
    t: "Technology ''Landfilling'' ''Landfilled waste'' d (cfinan st) True film = Inr (t, fin)"
    and st': "st' = st\<lparr>chain := chain st @ [t\<lparr>name := ''Landfilling, final''\<rparr>], cfinan := fin\<rparr>"
    by (auto simp: final_landfill_step_def split: sum.splits prod.splits)
  have "fin = cfinan st"
    using Technology_finan [OF t] by simp
  with t st' False show ?thesis
    by auto
qed

lemma final_landfill_step_frame:
  assumes "final_landfill_step d film st = Inr st'"
  shows "cfinan st' = cfinan st" and "eol_film st' = eol_film st"
    and "eol_poly st' = eol_poly st" and "film_to_landfill st' = film_to_landfill st"
    and "\<exists>ts. chain st' = chain st @ ts"
  using final_landfill_step_Inr [OF assms] by (auto split: if_splits)

text \<open>What one iteration of the second loop does for a single-pass technology.\<close>

lemma chain_step_other:
  assumes "chain_step d p fu ms (key, f, n) st = Inr st'"
    and "key \<noteq> ''Mechanical and Solvent Cleaning''"
    and "key \<noteq> ''Solvent Treatment and Precipitation''"
  shows "\<exists>e pk t film. output_efficiency d key = Inr e \<and> p key = Some pk \<and>
    Technology key pk d (cfinan st) True (fu * f) = Inr (t, cfinan st) \<and>
    film = (if key \<notin> set [''Landfilling'', ''Incineration'', ''Pyrolysis'']
            then virg_prod ms * f * e else 0) \<and>
    final_landfill_step d film
      (st\<lparr>chain := chain st @ [t], cfinan := cfinan st,
          eol_film := Some (fu * f), eol_poly := Some 0,
          film_to_landfill := Some film\<rparr>) = Inr st'"
proof -
  from assms obtain e pk t fin where
    e: "output_efficiency d key = Inr e" and pk: "p key = Some pk"
    and t: "Technology key pk d (cfinan st) True (fu * f) = Inr (t, fin)"
    and fl: "final_landfill_step d
       (if key \<notin> set [''Landfilling'', ''Incineration'', ''Pyrolysis'']
        then virg_prod ms * f * e else 0)
       (st\<lparr>chain := chain st @ [t], cfinan := fin,
           eol_film := Some (fu * f), eol_poly := Some 0,
           film_to_landfill := Some (if key \<notin> set [''Landfilling'', ''Incineration'', ''Pyrolysis'']
        then virg_prod ms * f * e else 0)\<rparr>) = Inr st'"
    unfolding chain_step_def Let_def
    by (simp split: sum.splits option.splits prod.splits)
  have "fin = cfinan st"
    using Technology_finan [OF t] by simp
  with e pk t fl show ?thesis
    by auto
qed

lemma chain_step_masc:
  assumes "chain_step d p fu ms (''Mechanical and Solvent Cleaning'', f, n) st = Inr st'"
  shows "\<exists>e pk t. output_efficiency d ''Mechanical and Solvent Cleaning'' = Inr e \<and>
    p ''Mechanical and Solvent Cleaning'' = Some pk \<and>
    Technology ''Mechanical and Solvent Cleaning'' pk d (cfinan st) True (prod_masc ms)
      = Inr (t, cfinan st) \<and>
    final_landfill_step d (virg_prod ms * f * py_pow e n)
      (st\<lparr>chain := chain st @ [t], cfinan := cfinan st,
          eol_film := Some (prod_masc ms), eol_poly := Some 0,
          film_to_landfill := Some (virg_prod ms * f * py_pow e n)\<rparr>) = Inr st'"
proof -
  from assms obtain e pk t fin where
    e: "output_efficiency d ''Mechanical and Solvent Cleaning'' = Inr e"
    and pk: "p ''Mechanical and Solvent Cleaning'' = Some pk"
    and t: "Technology ''Mechanical and Solvent Cleaning'' pk d (cfinan st) True (prod_masc ms)
              = Inr (t, fin)"
    and fl: "final_landfill_step d (virg_prod ms * f * py_pow e n)
       (st\<lparr>chain := chain st @ [t], cfinan := fin,
           eol_film := Some (prod_masc ms), eol_poly := Some 0,
           film_to_landfill := Some (virg_prod ms * f * py_pow e n)\<rparr>) = Inr st'"
    unfolding chain_step_def Let_def
    by (simp split: sum.splits option.splits prod.splits)
  have "fin = cfinan st"
    using Technology_finan [OF t] by simp
  with e pk t fl show ?thesis
    by auto
qed

lemma chain_step_stp:
  assumes "chain_step d p fu ms (''Solvent Treatment and Precipitation'', f, n) st = Inr st'"
  shows "\<exists>e pk ed t dn downst_film.
    output_efficiency d ''Solvent Treatment and Precipitation'' = Inr e \<and>
    p ''Solvent Treatment and Precipitation'' = Some pk \<and>
    eff_downst ms = Some ed \<and> downst ms = Some dn \<and>
    Technology ''Solvent Treatment and Precipitation'' pk d (cfinan st) True
      (0.7 * prod_strap ms / ed) = Inr (t, cfinan st) \<and>
    Technology dn ''Barrier film'' d (cfinan st) False (prod_strap ms)
      = Inr (downst_film, zero_recycled_inputs (cfinan st)) \<and>
    final_landfill_step d (virg_prod ms * f * py_pow (e * ed) n)
      (st\<lparr>chain := chain st @ [t, downst_film],
          cfinan := set_barrier_film_value (net_normalized_costs downst_film)
                      (zero_recycled_inputs (cfinan st)),
          eol_film := Some (prod_strap ms),
          eol_poly := Some (0.7 * prod_strap ms / ed),
          film_to_landfill := Some (virg_prod ms * f * py_pow (e * ed) n)\<rparr>) = Inr st'"
proof -
  from assms obtain e pk ed t fin1 dn downst_film fin2 where
    e: "output_efficiency d ''Solvent Treatment and Precipitation'' = Inr e"
    and pk: "p ''Solvent Treatment and Precipitation'' = Some pk"
    and ed: "eff_downst ms = Some ed" and dn: "downst ms = Some dn"
    and t: "Technology ''Solvent Treatment and Precipitation'' pk d (cfinan st) True
      (0.7 * prod_strap ms / ed) = Inr (t, fin1)"
    and df: "Technology dn ''Barrier film'' d fin1 False (prod_strap ms) = Inr (downst_film, fin2)"
    and fl: "final_landfill_step d (virg_prod ms * f * py_pow (e * ed) n)
      (st\<lparr>chain := chain st @ [t, downst_film],
          cfinan := set_barrier_film_value (net_normalized_costs downst_film) fin2,
          eol_film := Some (prod_strap ms),
          eol_poly := Some (0.7 * prod_strap ms / ed),
          film_to_landfill := Some (virg_prod ms * f * py_pow (e * ed) n)\<rparr>) = Inr st'"
    unfolding chain_step_def Let_def
    by (simp split: sum.splits option.splits prod.splits)
  have "fin1 = cfinan st"
    using Technology_finan [OF t] by simp
  moreover have "fin2 = zero_recycled_inputs fin1"
    using Technology_finan [OF df] by simp
  ultimately show ?thesis
    using e pk ed dn t df fl by auto
qed

lemma chain_step_prefix:
  assumes "chain_step d p fu ms entry st = Inr st'"
  shows "\<exists>ts. chain st' = chain st @ ts"
proof -
  obtain key f n where entry: "entry = (key, f, n)"
    by (cases entry)
  consider "key = ''Mechanical and Solvent Cleaning''"
    | "key = ''Solvent Treatment and Precipitation''"
    | "key \<noteq> ''Mechanical and Solvent Cleaning''" "key \<noteq> ''Solvent Treatment and Precipitation''"
    by blast
  then show ?thesis
  proof cases
    case 1
    from chain_step_masc [OF assms [unfolded entry 1]] show ?thesis
      by (auto dest!: final_landfill_step_frame(5))
  next
    case 2
    from chain_step_stp [OF assms [unfolded entry 2]] show ?thesis
      by (auto dest!: final_landfill_step_frame(5))
  next
    case 3
    from chain_step_other [OF assms [unfolded entry] 3] show ?thesis
      by (auto dest!: final_landfill_step_frame(5))
  qed
qed

lemma chain_loop_prefix:
  assumes "chain_loop d p fu ms es st = Inr st'"
  shows "\<exists>ts. chain st' = chain st @ ts"
  using assms
proof (induction es arbitrary: st)
  case Nil
  then show ?case by simp
next
  case (Cons entry es)
  then obtain st1 where 1: "chain_step d p fu ms entry st = Inr st1"
    and 2: "chain_loop d p fu ms es st1 = Inr st'"
    by (auto split: sum.splits)
  from chain_step_prefix [OF 1] Cons.IH [OF 2] show ?case
    by auto
qed

lemma chain_loop_split:
  assumes "chain_loop d p fu ms (es1 @ entry # es2) st = Inr st'"
  shows "\<exists>st1 st2. chain_loop d p fu ms es1 st = Inr st1
    \<and> chain_step d p fu ms entry st1 = Inr st2
    \<and> chain_loop d p fu ms es2 st2 = Inr st'"
  using assms
  by (induction es1 arbitrary: st) (auto split: sum.splits)

text \<open>
  An iteration for any other entry than the solvent treatment evaluates its technology,
  and its final landfilling if there is one, on the financial table as the iteration
  finds it, leaves that table as it is and sets \<open>eol_polyethylene_prod\<close> to 0.
\<close>

lemma chain_step_single:
  assumes "chain_step d p fu ms (key, f, n) st = Inr st'"
    and "key \<noteq> ''Solvent Treatment and Precipitation''"
  shows "\<exists>pk q t film. p key = Some pk
    \<and> Technology key pk d (cfinan st) True q = Inr (t, cfinan st)
    \<and> (if film \<noteq> 0
        then \<exists>lf. Technology ''Landfilling'' ''Landfilled waste'' d (cfinan st) True film
                     = Inr (lf, cfinan st)
                \<and> chain st' = chain st @ [t, lf\<lparr>name := ''Landfilling, final''\<rparr>]
        else chain st' = chain st @ [t])
    \<and> cfinan st' = cfinan st \<and> eol_poly st' = Some 0"
proof (cases "key = ''Mechanical and Solvent Cleaning''")
  case True
  from chain_step_masc [OF assms(1) [unfolded True]] obtain e pk t where
    pk: "p ''Mechanical and Solvent Cleaning'' = Some pk"
    and t: "Technology ''Mechanical and Solvent Cleaning'' pk d (cfinan st) True (prod_masc ms)
      = Inr (t, cfinan st)"
    and fl: "final_landfill_step d (virg_prod ms * f * py_pow e n)
      (st\<lparr>chain := chain st @ [t], cfinan := cfinan st,
          eol_film := Some (prod_masc ms), eol_poly := Some 0,
          film_to_landfill := Some (virg_prod ms * f * py_pow e n)\<rparr>) = Inr st'"
    by blast
  from final_landfill_step_Inr [OF fl] final_landfill_step_frame(1,3) [OF fl] pk t True
  show ?thesis
    by (intro exI [of _ pk] exI [of _ "prod_masc ms"] exI [of _ t]
        exI [of _ "virg_prod ms * f * py_pow e n"]) (auto split: if_splits)
next
  case False
  from chain_step_other [OF assms(1) False assms(2)] obtain e pk t where
    pk: "p key = Some pk"
    and t: "Technology key pk d (cfinan st) True (fu * f) = Inr (t, cfinan st)"
    and fl: "final_landfill_step d
      (if key \<notin> set [''Landfilling'', ''Incineration'', ''Pyrolysis'']
       then virg_prod ms * f * e else 0)
      (st\<lparr>chain := chain st @ [t], cfinan := cfinan st,
          eol_film := Some (fu * f), eol_poly := Some 0,
          film_to_landfill := Some (if key \<notin> set [''Landfilling'', ''Incineration'', ''Pyrolysis'']
       then virg_prod ms * f * e else 0)\<rparr>) = Inr st'"
    by blast
  from final_landfill_step_Inr [OF fl] final_landfill_step_frame(1,3) [OF fl] pk t
  show ?thesis
    by (intro exI [of _ pk] exI [of _ "fu * f"] exI [of _ t]
        exI [of _ "if key \<notin> set [''Landfilling'', ''Incineration'', ''Pyrolysis'']
                   then virg_prod ms * f * e else 0"]) (auto split: if_splits)
qed


text \<open>
  After an iteration for another entry than the solvent treatment, which is the last one,
  \<open>eol_polyethylene_prod\<close> is 0.
\<close>

lemma chain_loop_last_single:
  assumes "chain_loop d p fu ms (es @ [(key, f, n)]) st = Inr st'"
    and "key \<noteq> ''Solvent Treatment and Precipitation''"
  shows "eol_poly st' = Some 0"
proof -
  from chain_loop_snoc [OF assms(1)] obtain st1 where
    "chain_step d p fu ms (key, f, n) st1 = Inr st'"
    by blast
  from chain_step_single [OF this assms(2)] show ?thesis
    by auto
qed

text \<open>What a finished Scenario holds.\<close>

lemma Scenario_Inr:
  assumes "Scenario pp pr fu eol_sc products d fin s = Inr sc"
  shows "\<exists>prod_eff ms t0 cs film.
    output_efficiency d pp = Inr prod_eff \<and>
    mass_loop d s fu eol_sc
      \<lparr>virg_prod = 0, prod_masc = 0, prod_strap = 0, prod_amt = 0,
       downst = None, eff_downst = None\<rparr> = Inr ms \<and>
    Technology pp pr d fin True (virg_prod ms) = Inr (t0, fin) \<and>
    chain_loop d products fu ms eol_sc
      \<lparr>chain = [t0\<lparr>name := pp @ '', initial''\<rparr>], cfinan = fin,
       eol_film = None, eol_poly = None, film_to_landfill = None\<rparr> = Inr cs \<and>
    film_to_landfill cs = Some film \<and>
    s_finan sc = cfinan cs \<and> value_chain sc = chain cs \<and>
    eol_film_prod sc = eol_film cs \<and> eol_polyethylene_prod sc = eol_poly cs \<and>
    total_cost sc = sum_list (map production_cost (chain cs)) \<and>
    virgin_prod sc = virg_prod ms \<and> final_landfill sc = film"
proof -
  from assms obtain prod_eff ms t0 fin0 cs film where
    1: "output_efficiency d pp = Inr prod_eff"
    and 2: "mass_loop d s fu eol_sc
      \<lparr>virg_prod = 0, prod_masc = 0, prod_strap = 0, prod_amt = 0,
       downst = None, eff_downst = None\<rparr> = Inr ms"
    and 3: "Technology pp pr d fin True (virg_prod ms) = Inr (t0, fin0)"
    and 4: "chain_loop d products fu ms eol_sc
      \<lparr>chain = [t0\<lparr>name := pp @ '', initial''\<rparr>], cfinan = fin0,
       eol_film = None, eol_poly = None, film_to_landfill = None\<rparr> = Inr cs"
    and 5: "film_to_landfill cs = Some film"
    and 6: "sc = \<lparr>s_finan = cfinan cs, value_chain = chain cs,
                    eol_film_prod = eol_film cs, eol_polyethylene_prod = eol_poly cs,
                    total_eol_cost = sum_list (map production_cost
                      (filter (\<lambda>t. name t \<notin> set [''Sheet Molding Compound'', ''Barrier Film, initial''])
                         (chain cs))),
                    total_cost = sum_list (map production_cost (chain cs)),
                    virgin_prod = virg_prod ms, final_landfill = film\<rparr>"
    unfolding Scenario_def
    by (simp split: sum.splits option.splits prod.splits if_splits)
  have "fin0 = fin"
    using Technology_finan [OF 3] by simp
  with 1 2 3 4 5 6 show ?thesis
    by auto
qed

section \<open>Virgin production and the final landfill\<close>

text \<open>
  The virgin production of a finished Scenario is what the last entry of the allocation
  assigned, and it is the output of the first instance of the value chain.
\<close>

lemma Scenario_last_entry:
  assumes "Scenario pp pr fu (es @ [entry]) products d fin s = Inr sc"
  shows "\<exists>st1 ms cs1 cs t0 ts film.
    mass_step d s fu entry st1 = Inr ms \<and> virgin_prod sc = virg_prod ms \<and>
    chain_step d products fu ms entry cs1 = Inr cs \<and>
    film_to_landfill cs = Some film \<and> final_landfill sc = film \<and>
    eol_polyethylene_prod sc = eol_poly cs \<and>
    value_chain sc = t0 # ts \<and> name t0 = pp @ '', initial'' \<and> output_qty t0 = virg_prod ms"
proof -
  from Scenario_Inr [OF assms] obtain ms t0 cs film where
    ml: "mass_loop d s fu (es @ [entry])
      \<lparr>virg_prod = 0, prod_masc = 0, prod_strap = 0, prod_amt = 0,
       downst = None, eff_downst = None\<rparr> = Inr ms"
    and t0: "Technology pp pr d fin True (virg_prod ms) = Inr (t0, fin)"
    and cl: "chain_loop d products fu ms (es @ [entry])
      \<lparr>chain = [t0\<lparr>name := pp @ '', initial''\<rparr>], cfinan = fin,
       eol_film = None, eol_poly = None, film_to_landfill = None\<rparr> = Inr cs"
    and film: "film_to_landfill cs = Some film"
    and sc: "value_chain sc = chain cs" "eol_polyethylene_prod sc = eol_poly cs"
      "virgin_prod sc = virg_prod ms" "final_landfill sc = film"
    by blast
  from mass_loop_snoc [OF ml] obtain st1 where st1: "mass_step d s fu entry st1 = Inr ms"
    by blast
  from chain_loop_snoc [OF cl] obtain cs1 where
    cs1: "chain_step d products fu ms entry cs1 = Inr cs"
    by blast
  from chain_loop_prefix [OF cl] obtain ts where
    "chain cs = t0\<lparr>name := pp @ '', initial''\<rparr> # ts"
    by auto
  moreover have "output_qty t0 = virg_prod ms"
    using Technology_fields(3) [OF t0] .
  ultimately show ?thesis
    using st1 cs1 film sc by auto
qed

text \<open>
  Claim C9. With the allocation \<open>es @ [(key, f, n)]\<close>, whatever the entries \<open>es\<close> before
  the last one are, the virgin production reported by the Scenario, which is also the
  required output of the initial production instance, is the value of the last entry's
  formula alone; for a single-pass key it is the whole functional unit, whatever the
  fraction \<open>f\<close> is.
\<close>

theorem C9_virgin_production_from_last_entry:
  assumes "Scenario pp pr fu (es @ [(key, f, n)]) products d fin s = Inr sc"
  shows "(\<exists>e. output_efficiency d key = Inr e \<and>
      (key = ''Mechanical and Solvent Cleaning''
         \<longrightarrow> virgin_prod sc = f * fu / (1 + sum_list (powers e n))) \<and>
      (key = ''Solvent Treatment and Precipitation''
         \<longrightarrow> (\<exists>dn ed. first_value (map sDownstream (filter (\<lambda>r. sTechnology r = key) s)) = Inr dn
                \<and> output_efficiency d dn = Inr ed
                \<and> virgin_prod sc = f * fu / (1 + sum_list (powers (ed * e) n)))) \<and>
      (key \<noteq> ''Mechanical and Solvent Cleaning'' \<and> key \<noteq> ''Solvent Treatment and Precipitation''
         \<longrightarrow> virgin_prod sc = fu)) \<and>
    (\<exists>t0 ts. value_chain sc = t0 # ts \<and> name t0 = pp @ '', initial''
       \<and> output_qty t0 = virgin_prod sc)"
proof -
  from Scenario_last_entry [OF assms] obtain st1 ms t0 ts where
    step: "mass_step d s fu (key, f, n) st1 = Inr ms"
    and virgin: "virgin_prod sc = virg_prod ms"
    and chain: "value_chain sc = t0 # ts" "name t0 = pp @ '', initial''"
      "output_qty t0 = virg_prod ms"
    by blast
  consider "key = ''Mechanical and Solvent Cleaning''"
    | "key = ''Solvent Treatment and Precipitation''"
    | "key \<noteq> ''Mechanical and Solvent Cleaning''" "key \<noteq> ''Solvent Treatment and Precipitation''"
    by blast
  then have "\<exists>e. output_efficiency d key = Inr e \<and>
      (key = ''Mechanical and Solvent Cleaning''
         \<longrightarrow> virgin_prod sc = f * fu / (1 + sum_list (powers e n))) \<and>
      (key = ''Solvent Treatment and Precipitation''
         \<longrightarrow> (\<exists>dn ed. first_value (map sDownstream (filter (\<lambda>r. sTechnology r = key) s)) = Inr dn
                \<and> output_efficiency d dn = Inr ed
                \<and> virgin_prod sc = f * fu / (1 + sum_list (powers (ed * e) n)))) \<and>
      (key \<noteq> ''Mechanical and Solvent Cleaning'' \<and> key \<noteq> ''Solvent Treatment and Precipitation''
         \<longrightarrow> virgin_prod sc = fu)"
  proof cases
    case 1
    from mass_step_masc [OF step [unfolded 1]] virgin 1 show ?thesis
      by auto
  next
    case 2
    from mass_step_stp [OF step [unfolded 2]] virgin 2 show ?thesis
      by auto
  next
    case 3
    from mass_step_other [OF step 3] virgin 3 show ?thesis
      by auto
  qed
  with chain virgin show ?thesis
    by auto
qed

text \<open>
  The virgin production that the code computes for the single-stage closed loop as the
  last entry of the allocation, with fraction \<open>f\<close>, \<open>n \<ge> 0\<close> cycles and efficiency \<open>e\<close>:
  \<open>f * fu / (1 + (\<Sum>i\<le>n. e ^ i))\<close>. The denominator is one more than the geometric sum; in
  exact arithmetic, and when it is not zero, the virgin production times that
  denominator is \<open>f * fu\<close>.
\<close>

lemma virgin_production_single_stage:
  assumes "Scenario pp pr fu (es @ [(''Mechanical and Solvent Cleaning'', f, n)]) products d fin s
             = Inr sc"
    and "0 \<le> n"
    and "output_efficiency d ''Mechanical and Solvent Cleaning'' = Inr e"
    and "1 + (\<Sum>i\<le>nat n. e ^ i) \<noteq> 0"
  shows "virgin_prod sc = f * fu / (1 + (\<Sum>i\<le>nat n. e ^ i))
    \<and> virgin_prod sc * (1 + (\<Sum>i\<le>nat n. e ^ i)) = f * fu"
proof -
  from Scenario_last_entry [OF assms(1)] obtain st1 ms where
    step: "mass_step d s fu (''Mechanical and Solvent Cleaning'', f, n) st1 = Inr ms"
    and virgin: "virgin_prod sc = virg_prod ms"
    by blast
  from mass_step_masc [OF step] assms(3) have
    "virg_prod ms = f * fu / (1 + sum_list (powers e n))"
    by auto
  with virgin assms(2) have "virgin_prod sc = f * fu / (1 + (\<Sum>i\<le>nat n. e ^ i))"
    by (simp add: sum_list_powers)
  with assms(4) show ?thesis
    by simp
qed

text \<open>
  Claim C2, as the code has it. With a closed loop as the last entry of the allocation and
  a per-cycle efficiency of exactly 1 (the efficiency of the cleaning, or the product of
  the efficiencies of the solvent treatment and of its downstream process), the final
  landfill is the virgin production times the fraction: all the film that is left after
  the last cycle is disposed of.
\<close>

theorem C2_final_landfill_without_loss:
  assumes "Scenario pp pr fu (es @ [(key, f, n)]) products d fin s = Inr sc"
    and "(key = ''Mechanical and Solvent Cleaning'' \<and> output_efficiency d key = Inr 1)
       \<or> (key = ''Solvent Treatment and Precipitation''
            \<and> (\<exists>e dn ed. output_efficiency d key = Inr e
                 \<and> first_value (map sDownstream (filter (\<lambda>r. sTechnology r = key) s)) = Inr dn
                 \<and> output_efficiency d dn = Inr ed \<and> e * ed = 1))"
  shows "final_landfill sc = virgin_prod sc * f"
proof -
  from Scenario_last_entry [OF assms(1)] obtain st1 ms cs1 cs film where
    step: "mass_step d s fu (key, f, n) st1 = Inr ms"
    and virgin: "virgin_prod sc = virg_prod ms"
    and cstep: "chain_step d products fu ms (key, f, n) cs1 = Inr cs"
    and film: "film_to_landfill cs = Some film" "final_landfill sc = film"
    by blast
  have pow: "py_pow 1 n = 1"
    by (simp add: py_pow_def)
  have "film = virg_prod ms * f"
    using assms(2)
  proof
    assume a: "key = ''Mechanical and Solvent Cleaning'' \<and> output_efficiency d key = Inr 1"
    from chain_step_masc [OF cstep [unfolded conjunct1 [OF a]]] a obtain st2 where
      "final_landfill_step d (virg_prod ms * f * py_pow 1 n) st2 = Inr cs"
      "film_to_landfill st2 = Some (virg_prod ms * f * py_pow 1 n)"
      by auto
    with film(1) pow show ?thesis
      by (auto dest: final_landfill_step_frame(4))
  next
    assume a: "key = ''Solvent Treatment and Precipitation''
            \<and> (\<exists>e dn ed. output_efficiency d key = Inr e
                 \<and> first_value (map sDownstream (filter (\<lambda>r. sTechnology r = key) s)) = Inr dn
                 \<and> output_efficiency d dn = Inr ed \<and> e * ed = 1)"
    then obtain e dn ed where k: "key = ''Solvent Treatment and Precipitation''"
      and e: "output_efficiency d ''Solvent Treatment and Precipitation'' = Inr e"
      and dn: "first_value (map sDownstream
        (filter (\<lambda>r. sTechnology r = ''Solvent Treatment and Precipitation'') s)) = Inr dn"
      and ed: "output_efficiency d dn = Inr ed" and one: "e * ed = 1"
      by auto
    from mass_step_stp [OF step [unfolded k]] dn ed have effd: "eff_downst ms = Some ed"
      by auto
    from chain_step_stp [OF cstep [unfolded k]] e effd obtain st2 where
      "final_landfill_step d (virg_prod ms * f * py_pow (e * ed) n) st2 = Inr cs"
      "film_to_landfill st2 = Some (virg_prod ms * f * py_pow (e * ed) n)"
      by auto
    with film(1) pow one show ?thesis
      by (auto dest: final_landfill_step_frame(4))
  qed
  with virgin film(2) show ?thesis
    by simp
qed

text \<open>
  Claim C8. With the functional unit 1 and the allocation \<open>{'Landfilling': (1.0, 0)}\<close>,
  a finished Scenario has a value chain of two instances: the initial production with
  output 1, renamed, and Landfilling with output 1, both evaluated on the financial table
  as given. The total cost is the sum of their two production costs, the final landfill
  is 0 and no final landfilling instance is appended.
\<close>

theorem C8_landfilling_scenario:
  assumes "Scenario pp pr 1 [(''Landfilling'', 1, 0)] products d fin s = Inr sc"
  shows "\<exists>t0 t1 pk. products ''Landfilling'' = Some pk
    \<and> Technology pp pr d fin True 1 = Inr (t0, fin)
    \<and> Technology ''Landfilling'' pk d fin True 1 = Inr (t1, fin)
    \<and> value_chain sc = [t0\<lparr>name := pp @ '', initial''\<rparr>, t1]
    \<and> name t1 = ''Landfilling''
    \<and> total_cost sc = production_cost t0 + production_cost t1
    \<and> final_landfill sc = 0"
proof -
  let ?init = "\<lparr>virg_prod = 0, prod_masc = 0, prod_strap = 0, prod_amt = 0,
                 downst = None, eff_downst = None\<rparr>"
  from Scenario_Inr [OF assms] obtain ms t0 cs film where
    ml: "mass_loop d s 1 [(''Landfilling'', 1, 0)] ?init = Inr ms"
    and t0: "Technology pp pr d fin True (virg_prod ms) = Inr (t0, fin)"
    and cl: "chain_loop d products 1 ms [(''Landfilling'', 1, 0)]
      \<lparr>chain = [t0\<lparr>name := pp @ '', initial''\<rparr>], cfinan = fin,
       eol_film = None, eol_poly = None, film_to_landfill = None\<rparr> = Inr cs"
    and film: "film_to_landfill cs = Some film"
    and sc: "value_chain sc = chain cs" "total_cost sc = sum_list (map production_cost (chain cs))"
      "final_landfill sc = film"
    by blast
  have "mass_step d s 1 (''Landfilling'', 1, 0) ?init = Inr ms"
    using ml by (simp split: sum.splits)
  from mass_step_other [OF this] have v: "virg_prod ms = 1"
    by auto
  have "chain_step d products 1 ms (''Landfilling'', 1, 0)
      \<lparr>chain = [t0\<lparr>name := pp @ '', initial''\<rparr>], cfinan = fin,
       eol_film = None, eol_poly = None, film_to_landfill = None\<rparr> = Inr cs"
    using cl by (simp split: sum.splits)
  from chain_step_other [OF this] obtain pk t1 where
    pk: "products ''Landfilling'' = Some pk"
    and t1: "Technology ''Landfilling'' pk d fin True 1 = Inr (t1, fin)"
    and fl: "final_landfill_step d 0
      \<lparr>chain = [t0\<lparr>name := pp @ '', initial''\<rparr>, t1], cfinan = fin,
       eol_film = Some 1, eol_poly = Some 0, film_to_landfill = Some 0\<rparr> = Inr cs"
    by auto
  from fl have cs: "chain cs = [t0\<lparr>name := pp @ '', initial''\<rparr>, t1]" "film_to_landfill cs = Some 0"
    by (auto simp: final_landfill_step_def)
  have "name t1 = ''Landfilling''"
    using Technology_fields(1) [OF t1] .
  with pk t0 t1 cs v sc film show ?thesis
    by auto
qed

section \<open>The solvent treatment branch\<close>

lemma mass_loop_split:
  assumes "mass_loop d s fu (es1 @ entry # es2) st = Inr st'"
  shows "\<exists>st1 st2. mass_loop d s fu es1 st = Inr st1 \<and> mass_step d s fu entry st1 = Inr st2
    \<and> mass_loop d s fu es2 st2 = Inr st'"
  using assms
  by (induction es1 arbitrary: st) (auto split: sum.splits)

text \<open>
  Only the solvent treatment entry assigns \<open>_prod_strap\<close>, \<open>_downst\<close> and \<open>_eff_downst\<close>.
\<close>

lemma mass_step_keeps_strap:
  assumes "mass_step d s fu (key, f, n) st = Inr st'"
    and "key \<noteq> ''Solvent Treatment and Precipitation''"
  shows "prod_strap st' = prod_strap st \<and> downst st' = downst st \<and> eff_downst st' = eff_downst st"
proof (cases "key = ''Mechanical and Solvent Cleaning''")
  case True
  from mass_step_masc [OF assms(1) [unfolded True]] show ?thesis
    by auto
next
  case False
  from mass_step_other [OF assms(1) False assms(2)] show ?thesis
    by auto
qed

lemma mass_loop_keeps_strap:
  assumes "mass_loop d s fu es st = Inr st'"
    and "''Solvent Treatment and Precipitation'' \<notin> set (map fst es)"
  shows "prod_strap st' = prod_strap st \<and> downst st' = downst st \<and> eff_downst st' = eff_downst st"
  using assms
proof (induction es arbitrary: st)
  case Nil
  then show ?case by simp
next
  case (Cons entry es)
  obtain key f n where entry: "entry = (key, f, n)"
    by (cases entry)
  from Cons.prems(1) obtain st1 where 1: "mass_step d s fu (key, f, n) st = Inr st1"
    and 2: "mass_loop d s fu es st1 = Inr st'"
    by (auto simp: entry split: sum.splits)
  have "key \<noteq> ''Solvent Treatment and Precipitation''"
    using Cons.prems(2) entry by auto
  from mass_step_keeps_strap [OF 1 this] Cons.IH [OF 2] Cons.prems(2) show ?case
    by auto
qed

text \<open>
  The iteration of the second loop for the solvent treatment entry, after the first loop
  has run over the allocation. \<open>_prod_strap\<close> is the total secondary film of that entry and
  \<open>_eff_downst\<close> the output efficiency of the downstream process of the structure table;
  the iteration appends the solvent treatment instance with required output
  \<open>0.7 * _prod_strap / _eff_downst\<close>, sets \<open>eol_polyethylene_prod\<close> to that same quantity,
  and appends the downstream instance with required output \<open>_prod_strap\<close>.
\<close>

lemma solvent_treatment_iteration:
  assumes "mass_loop d s fu eol_sc st0 = Inr ms"
    and "(''Solvent Treatment and Precipitation'', f, n) \<in> set eol_sc"
    and "distinct (map fst eol_sc)"
    and "chain_step d products fu ms (''Solvent Treatment and Precipitation'', f, n) st = Inr st'"
  shows "\<exists>e dn ed t downst_film ts.
    output_efficiency d ''Solvent Treatment and Precipitation'' = Inr e
    \<and> first_value (map sDownstream
         (filter (\<lambda>r. sTechnology r = ''Solvent Treatment and Precipitation'') s)) = Inr dn
    \<and> output_efficiency d dn = Inr ed
    \<and> prod_strap ms = sum_list (map (\<lambda>i. f * fu * (ed * e) ^ i
                                          / (1 + sum_list (powers (ed * e) n)))
                                     [0..<nat (n + 1)])
    \<and> chain st' = chain st @ t # downst_film # ts
    \<and> name t = ''Solvent Treatment and Precipitation''
    \<and> output_qty t = 0.7 * prod_strap ms / ed
    \<and> eol_poly st' = Some (0.7 * prod_strap ms / ed)
    \<and> name downst_film = dn
    \<and> output_qty downst_film = prod_strap ms"
proof -
  let ?stp = "''Solvent Treatment and Precipitation''"
  from assms(2) obtain es1 es2 where split: "eol_sc = es1 @ (?stp, f, n) # es2"
    by (auto dest: split_list)
  have later: "?stp \<notin> set (map fst es2)"
    using assms(3) unfolding split by auto
  from mass_loop_split [OF assms(1) [unfolded split]] obtain st1 st2 where
    step: "mass_step d s fu (?stp, f, n) st1 = Inr st2"
    and rest: "mass_loop d s fu es2 st2 = Inr ms"
    by blast
  from mass_step_stp [OF step] obtain e dn ed where
    e: "output_efficiency d ?stp = Inr e"
    and dn: "first_value (map sDownstream (filter (\<lambda>r. sTechnology r = ?stp) s)) = Inr dn"
    and ed: "output_efficiency d dn = Inr ed"
    and st2: "prod_strap st2 = sum_list (map (\<lambda>i. f * fu * (ed * e) ^ i
                                          / (1 + sum_list (powers (ed * e) n)))
                                     [0..<nat (n + 1)])"
      "downst st2 = Some dn" "eff_downst st2 = Some ed"
    by auto
  from mass_loop_keeps_strap [OF rest later] st2 have ms:
    "prod_strap ms = sum_list (map (\<lambda>i. f * fu * (ed * e) ^ i
                                          / (1 + sum_list (powers (ed * e) n)))
                                     [0..<nat (n + 1)])"
    "downst ms = Some dn" "eff_downst ms = Some ed"
    by simp_all
  from chain_step_stp [OF assms(4)] ms(2,3) obtain e' pk t downst_film where
    t: "Technology ?stp pk d (cfinan st) True (0.7 * prod_strap ms / ed) = Inr (t, cfinan st)"
    and df: "Technology dn ''Barrier film'' d (cfinan st) False (prod_strap ms)
      = Inr (downst_film, zero_recycled_inputs (cfinan st))"
    and fl: "final_landfill_step d (virg_prod ms * f * py_pow (e' * ed) n)
      (st\<lparr>chain := chain st @ [t, downst_film],
          cfinan := set_barrier_film_value (net_normalized_costs downst_film)
                      (zero_recycled_inputs (cfinan st)),
          eol_film := Some (prod_strap ms),
          eol_poly := Some (0.7 * prod_strap ms / ed),
          film_to_landfill := Some (virg_prod ms * f * py_pow (e' * ed) n)\<rparr>) = Inr st'"
    by auto
  from final_landfill_step_frame(3,5) [OF fl] obtain ts where
    "eol_poly st' = Some (0.7 * prod_strap ms / ed)"
    "chain st' = chain st @ t # downst_film # ts"
    by auto
  moreover note Technology_fields(1,3) [OF t] Technology_fields(1,3) [OF df]
  ultimately show ?thesis
    using e dn ed ms(1) by blast
qed

text \<open>
  Claim C10, as the code has it. In a finished Scenario whose allocation has the solvent
  treatment entry, with fraction \<open>f\<close> and \<open>n\<close> cycles, the value chain has the solvent
  treatment instance with required output 0.7 times the total secondary film of that
  entry divided by the output efficiency of the downstream process, directly followed
  by the downstream instance with the total secondary film as its required output.
  Every branch of the second loop assigns \<open>eol_polyethylene_prod\<close>, so the attribute of
  the finished Scenario is the one of the last entry: it is the required output of the
  solvent treatment instance when that entry is the last of the allocation, and 0 when
  another entry follows.
\<close>

theorem C10_solvent_treatment_outputs:
  assumes "Scenario pp pr fu (es1 @ (''Solvent Treatment and Precipitation'', f, n) # es2)
             products d fin s = Inr sc"
    and "distinct (map fst (es1 @ (''Solvent Treatment and Precipitation'', f, n) # es2))"
  shows "\<exists>e dn ed strap before t downst_film after.
    output_efficiency d ''Solvent Treatment and Precipitation'' = Inr e
    \<and> first_value (map sDownstream
         (filter (\<lambda>r. sTechnology r = ''Solvent Treatment and Precipitation'') s)) = Inr dn
    \<and> output_efficiency d dn = Inr ed
    \<and> strap = sum_list (map (\<lambda>i. f * fu * (ed * e) ^ i / (1 + sum_list (powers (ed * e) n)))
                              [0..<nat (n + 1)])
    \<and> value_chain sc = before @ t # downst_film # after
    \<and> name t = ''Solvent Treatment and Precipitation''
    \<and> output_qty t = 0.7 * strap / ed
    \<and> name downst_film = dn
    \<and> output_qty downst_film = strap
    \<and> eol_polyethylene_prod sc = (if es2 = [] then Some (0.7 * strap / ed) else Some 0)"
proof -
  let ?stp = "''Solvent Treatment and Precipitation''"
  let ?eol = "es1 @ (?stp, f, n) # es2"
  from Scenario_Inr [OF assms(1)] obtain ms t0 cs where
    ml: "mass_loop d s fu ?eol
      \<lparr>virg_prod = 0, prod_masc = 0, prod_strap = 0, prod_amt = 0,
       downst = None, eff_downst = None\<rparr> = Inr ms"
    and cl: "chain_loop d products fu ms ?eol
      \<lparr>chain = [t0\<lparr>name := pp @ '', initial''\<rparr>], cfinan = fin,
       eol_film = None, eol_poly = None, film_to_landfill = None\<rparr> = Inr cs"
    and sc: "value_chain sc = chain cs" "eol_polyethylene_prod sc = eol_poly cs"
    by blast
  from chain_loop_split [OF cl] obtain st1 st2 where
    step: "chain_step d products fu ms (?stp, f, n) st1 = Inr st2"
    and rest: "chain_loop d products fu ms es2 st2 = Inr cs"
    by blast
  have mem: "(?stp, f, n) \<in> set ?eol"
    by simp
  from solvent_treatment_iteration [OF ml mem assms(2) step]
  obtain e dn ed t downst_film ts where
    e: "output_efficiency d ?stp = Inr e"
    and dn: "first_value (map sDownstream (filter (\<lambda>r. sTechnology r = ?stp) s)) = Inr dn"
    and ed: "output_efficiency d dn = Inr ed"
    and strap: "prod_strap ms = sum_list (map (\<lambda>i. f * fu * (ed * e) ^ i
                                          / (1 + sum_list (powers (ed * e) n)))
                                     [0..<nat (n + 1)])"
    and ch: "chain st2 = chain st1 @ t # downst_film # ts"
    and t: "name t = ?stp" "output_qty t = 0.7 * prod_strap ms / ed"
    and poly: "eol_poly st2 = Some (0.7 * prod_strap ms / ed)"
    and df: "name downst_film = dn" "output_qty downst_film = prod_strap ms"
    by blast
  from chain_loop_prefix [OF rest] obtain post where "chain cs = chain st2 @ post"
    by blast
  with ch sc(1) have chain: "value_chain sc = chain st1 @ t # downst_film # (ts @ post)"
    by simp
  have attr: "eol_polyethylene_prod sc
      = (if es2 = [] then Some (0.7 * prod_strap ms / ed) else Some 0)"
  proof (cases "es2 = []")
    case True
    with rest have "cs = st2"
      by simp
    with poly sc(2) True show ?thesis
      by simp
  next
    case False
    then obtain es entry where es2: "es2 = es @ [entry]"
      by (cases es2 rule: rev_cases) auto
    obtain key f' n' where entry: "entry = (key, f', n')"
      by (cases entry)
    have "key \<noteq> ?stp"
      using assms(2) unfolding es2 entry by auto
    from chain_loop_last_single [OF rest [unfolded es2 entry] this] sc(2) False
    show ?thesis
      by simp
  qed
  from e dn ed strap chain t df attr show ?thesis
    by blast
qed



section \<open>The scenarios of the small data set\<close>

lemma upt_0_2: "[0..<2] = [0, Suc 0]"
  by (simp add: numeral_2_eq_2)

lemmas scenario_defs = Scenario_def mass_step_def chain_step_def final_landfill_step_def
  output_efficiency_def powers_def py_pow_def set_barrier_film_value_def upt_0_2
  demo_design_def demo_finan_def demo_struct_def demo_products_def

text \<open>
  Cleaning without loss, fraction 1, no further cycle, functional unit 1: half a unit of
  virgin film, half a unit through the cleaning, half a unit to the final landfill.
\<close>

lemma demo_cleaning_once:
  "\<exists>sc. Scenario ''Barrier Film'' ''Barrier film'' 1 [(''Mechanical and Solvent Cleaning'', 1, 0)]
          demo_products (demo_design 1 1) demo_finan demo_struct = Inr sc
        \<and> virgin_prod sc = 1 / 2 \<and> final_landfill sc = 1 / 2"
  by (simp add: scenario_defs tech_defs)

text \<open>Cleaning without loss, fraction 1, one cycle, functional unit 3.\<close>

lemma demo_cleaning_twice:
  "\<exists>sc. Scenario ''Barrier Film'' ''Barrier film'' 3 [(''Mechanical and Solvent Cleaning'', 1, 1)]
          demo_products (demo_design 1 1) demo_finan demo_struct = Inr sc
        \<and> virgin_prod sc = 1 \<and> final_landfill sc = 1"
  by (simp add: scenario_defs tech_defs)

text \<open>Everything to the landfill.\<close>

lemma demo_landfilling:
  "\<exists>sc. Scenario ''Barrier Film'' ''Barrier film'' 1 [(''Landfilling'', 1, 0)]
          demo_products (demo_design 1 1) demo_finan demo_struct = Inr sc
        \<and> map name (value_chain sc) = [''Barrier Film, initial'', ''Landfilling'']
        \<and> map production_cost (value_chain sc) = [1, 4]
        \<and> total_cost sc = 5"
  by (simp add: scenario_defs tech_defs)

text \<open>Half to the cleaning with one cycle, half to the landfill.\<close>

lemma demo_cleaning_and_landfilling:
  "\<exists>sc. Scenario ''Barrier Film'' ''Barrier film'' 1
          [(''Mechanical and Solvent Cleaning'', 1 / 2, 1), (''Landfilling'', 1 / 2, 0)]
          demo_products (demo_design (1 / 2) 1) demo_finan demo_struct = Inr sc
        \<and> virgin_prod sc = 1
        \<and> map output_qty (value_chain sc) = [1, 3 / 10, 1 / 4, 1 / 2]"
  by (simp add: scenario_defs tech_defs)

text \<open>
  Half to the solvent treatment (efficiency 1/2, no further cycle), half to the landfill,
  in that order: the landfilling instances are evaluated after the price of barrier film
  has become 1/2, the net cost of the regenerated film.
\<close>

lemma demo_treatment_then_landfilling:
  "\<exists>sc. Scenario ''Barrier Film'' ''Barrier film'' 1
          [(''Solvent Treatment and Precipitation'', 1 / 2, 0), (''Landfilling'', 1 / 2, 0)]
          demo_products (demo_design 1 (1 / 2)) demo_finan demo_struct = Inr sc
        \<and> map name (value_chain sc)
            = [''Barrier Film, initial'', ''Solvent Treatment and Precipitation'',
               ''Barrier Film'', ''Landfilling, final'', ''Landfilling'']
        \<and> map output_qty (value_chain sc) = [1, 7 / 40, 1 / 4, 1 / 2, 1 / 2]
        \<and> eol_polyethylene_prod sc = Some 0"
  by (simp add: scenario_defs tech_defs first_value_def)

text \<open>
  Half to the landfill, half to the solvent treatment (efficiency 1/2, one cycle), in that
  order.
\<close>

lemma demo_landfilling_then_treatment:
  "\<exists>sc. Scenario ''Barrier Film'' ''Barrier film'' 1
          [(''Landfilling'', 1 / 2, 0), (''Solvent Treatment and Precipitation'', 1 / 2, 1)]
          demo_products (demo_design 1 (1 / 2)) demo_finan demo_struct = Inr sc
        \<and> map name (value_chain sc)
            = [''Barrier Film, initial'', ''Landfilling'', ''Solvent Treatment and Precipitation'',
               ''Barrier Film'', ''Landfilling, final'']
        \<and> map output_qty (value_chain sc) = [1 / 5, 1 / 2, 21 / 100, 3 / 10, 1 / 20]
        \<and> eol_polyethylene_prod sc = Some (21 / 100)"
  by (simp add: scenario_defs tech_defs first_value_def)


section \<open>The claims on the small data set\<close>

text \<open>
  Claim C1: the virgin production is \<open>f * fu\<close> over the geometric sum of \<open>e ^ i\<close> for \<open>i\<close>
  from 0 to \<open>n\<close>, so that virgin production times that sum is \<open>f * fu\<close>. The code divides
  by one more than that sum: the leading 1 and the term \<open>e ^ 0\<close> both stand for the virgin
  lifetime. With efficiency 1, fraction 1, one cycle and functional unit 3 the geometric
  sum is 2 and the claim gives a virgin production of 3/2; the code computes
  \<open>1 * 3 / (1 + 2)\<close>.
\<close>

theorem C1_virgin_production_divided_by_one_more:
  "\<not> isl (Scenario ''Barrier Film'' ''Barrier film'' 3
            [(''Mechanical and Solvent Cleaning'', 1, 1)]
            demo_products (demo_design 1 1) demo_finan demo_struct)
   \<and> output_efficiency (demo_design 1 1) ''Mechanical and Solvent Cleaning'' = Inr 1
   \<and> sum_list (powers 1 1) = 2
   \<and> virgin_prod (projr (Scenario ''Barrier Film'' ''Barrier film'' 3
            [(''Mechanical and Solvent Cleaning'', 1, 1)]
            demo_products (demo_design 1 1) demo_finan demo_struct)) = 1
   \<and> virgin_prod (projr (Scenario ''Barrier Film'' ''Barrier film'' 3
            [(''Mechanical and Solvent Cleaning'', 1, 1)]
            demo_products (demo_design 1 1) demo_finan demo_struct)) * sum_list (powers 1 1)
       \<noteq> 1 * 3"
proof -
  obtain sc where "Scenario ''Barrier Film'' ''Barrier film'' 3
      [(''Mechanical and Solvent Cleaning'', 1, 1)]
      demo_products (demo_design 1 1) demo_finan demo_struct = Inr sc"
    and "virgin_prod sc = 1"
    using demo_cleaning_twice by (elim exE conjE) (rule that, assumption+)
  then show ?thesis
    by (simp add: powers_def upt_0_2 output_efficiency_def first_value_def demo_design_def)
qed

text \<open>
  Claim C2 as the specification words it: with efficiency 1 the final landfill is zero.
  With efficiency 1, fraction 1, no further cycle and functional unit 1 the code has a
  virgin production of 1/2 and a final landfill of \<open>1/2 * 1 * 1 ^ 0\<close>: the virgin film is
  landfilled after its last lifetime, whatever the efficiency.
\<close>

theorem C2_counterexample:
  "\<not> isl (Scenario ''Barrier Film'' ''Barrier film'' 1
            [(''Mechanical and Solvent Cleaning'', 1, 0)]
            demo_products (demo_design 1 1) demo_finan demo_struct)
   \<and> output_efficiency (demo_design 1 1) ''Mechanical and Solvent Cleaning'' = Inr 1
   \<and> final_landfill (projr (Scenario ''Barrier Film'' ''Barrier film'' 1
            [(''Mechanical and Solvent Cleaning'', 1, 0)]
            demo_products (demo_design 1 1) demo_finan demo_struct)) = 1 / 2"
proof -
  obtain sc where "Scenario ''Barrier Film'' ''Barrier film'' 1
      [(''Mechanical and Solvent Cleaning'', 1, 0)]
      demo_products (demo_design 1 1) demo_finan demo_struct = Inr sc"
    and "final_landfill sc = 1 / 2"
    using demo_cleaning_once by (elim exE conjE) (rule that, assumption+)
  then show ?thesis
    by (simp add: output_efficiency_def first_value_def demo_design_def)
qed

theorem C2_witness:
  "\<exists>sc. Scenario ''Barrier Film'' ''Barrier film'' 3
          ([] @ [(''Mechanical and Solvent Cleaning'', 1, 1)])
          demo_products (demo_design 1 1) demo_finan demo_struct = Inr sc
     \<and> output_efficiency (demo_design 1 1) ''Mechanical and Solvent Cleaning'' = Inr 1
     \<and> final_landfill sc = virgin_prod sc * 1
     \<and> final_landfill sc = 1"
proof -
  obtain sc where ev: "Scenario ''Barrier Film'' ''Barrier film'' 3
      ([] @ [(''Mechanical and Solvent Cleaning'', 1, 1)])
      demo_products (demo_design 1 1) demo_finan demo_struct = Inr sc"
    and l: "final_landfill sc = 1"
    using demo_cleaning_twice by (elim exE conjE) (rule that, simp_all)
  have e: "output_efficiency (demo_design 1 1) ''Mechanical and Solvent Cleaning'' = Inr 1"
    by (simp add: output_efficiency_def first_value_def demo_design_def)
  have "final_landfill sc = virgin_prod sc * 1"
    by (rule C2_final_landfill_without_loss [OF ev]) (simp add: e)
  with ev e l show ?thesis
    by auto
qed

theorem C8_witness:
  "\<exists>sc. Scenario ''Barrier Film'' ''Barrier film'' 1 [(''Landfilling'', 1, 0)]
          demo_products (demo_design 1 1) demo_finan demo_struct = Inr sc
     \<and> (\<exists>t0 t1. Technology ''Barrier Film'' ''Barrier film'' (demo_design 1 1) demo_finan True 1
                   = Inr (t0, demo_finan)
          \<and> Technology ''Landfilling'' ''Landfilled waste'' (demo_design 1 1) demo_finan True 1
                   = Inr (t1, demo_finan)
          \<and> value_chain sc = [t0\<lparr>name := ''Barrier Film, initial''\<rparr>, t1]
          \<and> total_cost sc = production_cost t0 + production_cost t1)
     \<and> map name (value_chain sc) = [''Barrier Film, initial'', ''Landfilling'']
     \<and> total_cost sc = 5
     \<and> final_landfill sc = 0"
proof -
  obtain sc where ev: "Scenario ''Barrier Film'' ''Barrier film'' 1 [(''Landfilling'', 1, 0)]
      demo_products (demo_design 1 1) demo_finan demo_struct = Inr sc"
    and vals: "map name (value_chain sc) = [''Barrier Film, initial'', ''Landfilling'']"
      "total_cost sc = 5"
    using demo_landfilling by (elim exE conjE) (rule that, assumption+)
  have pk: "demo_products ''Landfilling'' = Some ''Landfilled waste''"
    by (simp add: demo_products_def)
  from C8_landfilling_scenario [OF ev] pk ev vals show ?thesis
    by auto
qed

theorem C9_witness:
  "\<exists>sc. Scenario ''Barrier Film'' ''Barrier film'' 1
          ([(''Mechanical and Solvent Cleaning'', 1 / 2, 1)] @ [(''Landfilling'', 1 / 2, 0)])
          demo_products (demo_design (1 / 2) 1) demo_finan demo_struct = Inr sc
     \<and> virgin_prod sc = 1
     \<and> (\<exists>t0 ts. value_chain sc = t0 # ts \<and> name t0 = ''Barrier Film, initial''
          \<and> output_qty t0 = 1)"
proof -
  obtain sc where ev: "Scenario ''Barrier Film'' ''Barrier film'' 1
      ([(''Mechanical and Solvent Cleaning'', 1 / 2, 1)] @ [(''Landfilling'', 1 / 2, 0)])
      demo_products (demo_design (1 / 2) 1) demo_finan demo_struct = Inr sc"
    using demo_cleaning_and_landfilling by (elim exE conjE) (rule that, simp_all)
  from C9_virgin_production_from_last_entry [OF ev] ev show ?thesis
    by auto
qed


text \<open>
  Claim C10 as it is worded: the attribute \<open>eol_polyethylene_prod\<close> of the Scenario is the
  required output of the solvent treatment instance. With half of the film to the solvent
  treatment and half to the landfill, in that order, the instance has the required
  output \<open>0.7 * (1/4) / 1\<close>, and the landfilling entry that follows assigns 0 to the
  attribute.
\<close>

theorem C10_counterexample:
  "\<not> isl (Scenario ''Barrier Film'' ''Barrier film'' 1
            [(''Solvent Treatment and Precipitation'', 1 / 2, 0), (''Landfilling'', 1 / 2, 0)]
            demo_products (demo_design 1 (1 / 2)) demo_finan demo_struct)
   \<and> map name (value_chain (projr (Scenario ''Barrier Film'' ''Barrier film'' 1
            [(''Solvent Treatment and Precipitation'', 1 / 2, 0), (''Landfilling'', 1 / 2, 0)]
            demo_products (demo_design 1 (1 / 2)) demo_finan demo_struct)))
       = [''Barrier Film, initial'', ''Solvent Treatment and Precipitation'',
          ''Barrier Film'', ''Landfilling, final'', ''Landfilling'']
   \<and> map output_qty (value_chain (projr (Scenario ''Barrier Film'' ''Barrier film'' 1
            [(''Solvent Treatment and Precipitation'', 1 / 2, 0), (''Landfilling'', 1 / 2, 0)]
            demo_products (demo_design 1 (1 / 2)) demo_finan demo_struct)))
       = [1, 7 / 40, 1 / 4, 1 / 2, 1 / 2]
   \<and> eol_polyethylene_prod (projr (Scenario ''Barrier Film'' ''Barrier film'' 1
            [(''Solvent Treatment and Precipitation'', 1 / 2, 0), (''Landfilling'', 1 / 2, 0)]
            demo_products (demo_design 1 (1 / 2)) demo_finan demo_struct)) = Some 0"
proof -
  obtain sc where "Scenario ''Barrier Film'' ''Barrier film'' 1
      [(''Solvent Treatment and Precipitation'', 1 / 2, 0), (''Landfilling'', 1 / 2, 0)]
      demo_products (demo_design 1 (1 / 2)) demo_finan demo_struct = Inr sc"
    and "map name (value_chain sc)
            = [''Barrier Film, initial'', ''Solvent Treatment and Precipitation'',
               ''Barrier Film'', ''Landfilling, final'', ''Landfilling'']"
    and "map output_qty (value_chain sc) = [1, 7 / 40, 1 / 4, 1 / 2, 1 / 2]"
    and "eol_polyethylene_prod sc = Some 0"
    using demo_treatment_then_landfilling by (elim exE conjE) (rule that, assumption+)
  then show ?thesis
    by simp
qed

theorem C10_witness:
  "\<exists>sc. Scenario ''Barrier Film'' ''Barrier film'' 1
          ([(''Landfilling'', 1 / 2, 0)] @ (''Solvent Treatment and Precipitation'', 1 / 2, 1) # [])
          demo_products (demo_design 1 (1 / 2)) demo_finan demo_struct = Inr sc
     \<and> distinct (map fst ([(''Landfilling'', 1 / 2 :: real, 0 :: int)]
          @ (''Solvent Treatment and Precipitation'', 1 / 2, 1) # []))
     \<and> (\<exists>before t downst_film after.
           value_chain sc = before @ t # downst_film # after
           \<and> name t = ''Solvent Treatment and Precipitation''
           \<and> name downst_film = ''Barrier Film''
           \<and> eol_polyethylene_prod sc = Some (output_qty t))
     \<and> map output_qty (value_chain sc) = [1 / 5, 1 / 2, 21 / 100, 3 / 10, 1 / 20]
     \<and> eol_polyethylene_prod sc = Some (21 / 100)"
proof -
  obtain sc where ev: "Scenario ''Barrier Film'' ''Barrier film'' 1
      ([(''Landfilling'', 1 / 2, 0)] @ (''Solvent Treatment and Precipitation'', 1 / 2, 1) # [])
      demo_products (demo_design 1 (1 / 2)) demo_finan demo_struct = Inr sc"
    and vals: "map output_qty (value_chain sc) = [1 / 5, 1 / 2, 21 / 100, 3 / 10, 1 / 20]"
      "eol_polyethylene_prod sc = Some (21 / 100)"
    using demo_landfilling_then_treatment by (elim exE conjE) (rule that, simp_all)
  have dist: "distinct (map fst ([(''Landfilling'', 1 / 2 :: real, 0 :: int)]
          @ (''Solvent Treatment and Precipitation'', 1 / 2, 1) # []))"
    by simp
  from C10_solvent_treatment_outputs [OF ev dist] obtain dn ed strap before t downst_film after
    where dn: "first_value (map sDownstream
         (filter (\<lambda>r. sTechnology r = ''Solvent Treatment and Precipitation'') demo_struct)) = Inr dn"
    and ch: "value_chain sc = before @ t # downst_film # after"
    and t: "name t = ''Solvent Treatment and Precipitation''" "output_qty t = 0.7 * strap / ed"
    and df: "name downst_film = dn"
    and attr: "eol_polyethylene_prod sc = (if ([]::eol_entry list) = [] then Some (0.7 * strap / ed)
        else Some 0)"
    by (elim exE conjE) (rule that, assumption+)
  have "dn = ''Barrier Film''"
    using dn by (simp add: first_value_def demo_struct_def)
  with ch t df attr have ex: "\<exists>before t downst_film after.
           value_chain sc = before @ t # downst_film # after
           \<and> name t = ''Solvent Treatment and Precipitation''
           \<and> name downst_film = ''Barrier Film''
           \<and> eol_polyethylene_prod sc = Some (output_qty t)"
    by (intro exI [of _ before] exI [of _ t] exI [of _ downst_film] exI [of _ after]) simp
  show ?thesis
    by (intro exI [of _ sc] conjI) (rule ev dist ex vals)+
qed


end
